theory Spec2Isabelle
  imports Complex_Main "HOL-Library.Sublist"
begin

section \<open>Exceptions\<close>

text \<open>
  The Python exceptions that the modelled cells can raise or catch.  A cell or helper that
  may raise returns \<open>exn + 'a\<close>, with \<open>Inl\<close> for the exception that propagates out of it.
\<close>

datatype exn =
    Exception string
  | BucketAlreadyOwnedByYou
  | AlreadyExistsException
  | BucketAlreadyExists
  | ClientError string
  | NoSuchKey
  | IndexError
  | KeyError string
  | ValueError

section \<open>The ad-hoc SQL helper \<open>execute_athena_query\<close>\<close>

text \<open>
  The helper of the notebook that loads the sample tables:
  \<^verbatim>\<open>
  def execute_athena_query(query, database=db_name, s3_output=s3_output):
      athena_client = boto3.client('athena')
      response = athena_client.start_query_execution(...)
      query_execution_id = response['QueryExecutionId']
      while True:
          response = athena_client.get_query_execution(QueryExecutionId=query_execution_id)
          state = response['QueryExecution']['Status']['State']
          if state in ['SUCCEEDED', 'FAILED', 'CANCELLED']:
              break
          time.sleep(1)
      if state == 'SUCCEEDED':
          results = []
          paginator = athena_client.get_paginator('get_query_results')
          for page in paginator.paginate(QueryExecutionId=query_execution_id):
              for row in page['ResultSet']['Rows']:
                  results.append([field.get('VarCharValue', '') for field in row['Data']])
          if results:
              df = pd.DataFrame(results[1:], columns = results[0])
              display(df)
          else:
              print("Successfully executed.")
      else:
          error_message = response['QueryExecution']['Status'].get('StateChangeReason',
                                                                   'No error message available')
          raise Exception(f"Query failed: {error_message}")
  \<close>

  The shapes of the Athena responses the helper reads.  A key the helper reads with
  \<open>.get(key, default)\<close> is an optional field; a key it indexes directly is a plain field.
  The remote calls are taken to answer: a transport or permission error of the service is
  not part of the model.
\<close>

record status =
  State :: string
  StateChangeReason :: "string option"

record query_execution =
  Status :: status

record execution_response =
  QueryExecution :: query_execution

record datum =
  VarCharValue :: "string option"

record row =
  Data :: "datum list"

record result_set =
  Rows :: "row list"

record page =
  ResultSet :: result_set

text \<open>
  The Athena client, as far as the helper uses it: starting a query gives an execution id;
  \<open>get_query_execution qid k\<close> is the response to the \<open>k\<close>-th status poll for that id
  (counted from 0); \<open>paginate qid\<close> is the sequence of result pages the paginator yields.
\<close>

record athena =
  start_query_execution :: "string \<Rightarrow> string \<Rightarrow> string \<Rightarrow> string"
  get_query_execution :: "string \<Rightarrow> nat \<Rightarrow> execution_response"
  paginate :: "string \<Rightarrow> page list"

text \<open>
  A DataFrame is its column names and its rows.  \<open>pd.DataFrame(data, columns=...)\<close> is the
  construction of the record: Athena returns every row of a result with one datum per
  column, so the data rows have the width of the header row.
\<close>

record 'c dataframe =
  columns :: "string list"
  rows :: "'c list list"

datatype shown = Display "string dataframe" | Print string

definition response_state :: "execution_response \<Rightarrow> string" where
  "response_state response = State (Status (QueryExecution response))"

definition terminal :: "string \<Rightarrow> bool" where
  "terminal state \<longleftrightarrow> state \<in> set [''SUCCEEDED'', ''FAILED'', ''CANCELLED'']"

text \<open>
  The \<open>while True\<close> loop.  \<open>k\<close> counts the polls made so far and \<open>slept\<close> the seconds
  slept so far; the loop returns the number of the poll that saw the terminal state, the
  seconds slept and the last response.  A loop that never sees a terminal state never
  returns: its value is \<open>None\<close>.
\<close>

partial_function (option) wait_for_query ::
  "(nat \<Rightarrow> execution_response) \<Rightarrow> nat \<Rightarrow> nat \<Rightarrow> (nat \<times> nat \<times> execution_response) option"
where
  "wait_for_query poll k slept =
     (if terminal (response_state (poll k)) then Some (k, slept, poll k)
      else wait_for_query poll (Suc k) (slept + 1))"

definition field_value :: "datum \<Rightarrow> string" where
  "field_value field = (case VarCharValue field of None \<Rightarrow> [] | Some v \<Rightarrow> v)"

definition collect_results :: "page list \<Rightarrow> string list list" where
  "collect_results pages =
     concat (map (\<lambda>page. map (\<lambda>row. map field_value (Data row)) (Rows (ResultSet page))) pages)"

definition error_message :: "execution_response \<Rightarrow> string" where
  "error_message response =
     (case StateChangeReason (Status (QueryExecution response)) of
        None \<Rightarrow> ''No error message available''
      | Some reason \<Rightarrow> reason)"

definition after_wait :: "athena \<Rightarrow> string \<Rightarrow> execution_response \<Rightarrow> exn + shown" where
  "after_wait client qid response =
     (if response_state response = ''SUCCEEDED'' then
        (let results = collect_results (paginate client qid) in
         if results \<noteq> [] then Inr (Display \<lparr>columns = hd results, rows = tl results\<rparr>)
         else Inr (Print ''Successfully executed.''))
      else Inl (Exception (''Query failed: '' @ error_message response)))"

definition execute_athena_query ::
  "athena \<Rightarrow> string \<Rightarrow> string \<Rightarrow> string \<Rightarrow> (exn + shown) option" where
  "execute_athena_query client query database s3_output =
     (let qid = start_query_execution client query database s3_output in
      case wait_for_query (get_query_execution client qid) 0 0 of
        None \<Rightarrow> None
      | Some (k, slept, response) \<Rightarrow> Some (after_wait client qid response))"

text \<open>Concrete Athena runs, used to evaluate the model.\<close>

definition example_response :: "string \<Rightarrow> string option \<Rightarrow> execution_response" where
  "example_response st reason =
     \<lparr>QueryExecution = \<lparr>Status = \<lparr>State = st, StateChangeReason = reason\<rparr>\<rparr>\<rparr>"

definition example_poll :: "string \<Rightarrow> string option \<Rightarrow> nat \<Rightarrow> execution_response" where
  "example_poll final reason k =
     (if k < 2 then example_response ''RUNNING'' None else example_response final reason)"

definition example_client :: "(nat \<Rightarrow> execution_response) \<Rightarrow> page list \<Rightarrow> athena" where
  "example_client poll pages =
     \<lparr>start_query_execution = (\<lambda>query database s3_output. ''q-1''),
      get_query_execution = (\<lambda>qid. poll),
      paginate = (\<lambda>qid. pages)\<rparr>"

definition example_pages :: "page list" where
  "example_pages =
     [\<lparr>ResultSet = \<lparr>Rows = [\<lparr>Data = [\<lparr>VarCharValue = Some ''order_id''\<rparr>, \<lparr>VarCharValue = Some ''market''\<rparr>]\<rparr>,
                             \<lparr>Data = [\<lparr>VarCharValue = Some ''A-1''\<rparr>, \<lparr>VarCharValue = None\<rparr>]\<rparr>]\<rparr>\<rparr>,
      \<lparr>ResultSet = \<lparr>Rows = [\<lparr>Data = [\<lparr>VarCharValue = Some ''A-2''\<rparr>, \<lparr>VarCharValue = Some ''EU''\<rparr>]\<rparr>]\<rparr>\<rparr>]"

section \<open>Loading the Excel workbooks: \<open>load_excel_to_df\<close>\<close>

text \<open>
  \<^verbatim>\<open>
  def load_excel_to_df(source_bucket, source_key):
      s3_client = boto3.client('s3')
      response = s3_client.get_object(Bucket=source_bucket, Key=source_key)
      excel_data = response['Body'].read()
      excel_file = pd.ExcelFile(BytesIO(excel_data))
      df = pd.read_excel(excel_file, sheet_name=excel_file.sheet_names[0])
      df.columns = df.columns.str.replace(' ', '_')
      df.columns = df.columns.str.strip()
      df.columns = df.columns.str.lower()
      print(df.head(5))
      return df
  \<close>

  A workbook is the list of its sheets in workbook order, each with its name and the
  table pandas parses from it.  The cells have any type \<open>'c\<close>; the column names are
  strings, as they are for a header row of text cells.
\<close>

record 'c excel_file =
  sheets :: "(string \<times> 'c dataframe) list"

definition sheet_names :: "'c excel_file \<Rightarrow> string list" where
  "sheet_names excel_file = map fst (sheets excel_file)"

text \<open>\<open>pd.read_excel\<close> with a sheet name: the sheet of that name, or a \<open>ValueError\<close>.\<close>

definition read_excel :: "'c excel_file \<Rightarrow> string \<Rightarrow> exn + 'c dataframe" where
  "read_excel excel_file sheet_name =
     (case map_of (sheets excel_file) sheet_name of
        None \<Rightarrow> Inl ValueError
      | Some df \<Rightarrow> Inr df)"

text \<open>
  The three string methods applied to the column names.  A character is a code point
  below 256, so a string is a Python string over Latin-1.  \<open>str.replace\<close> is called with
  two one-character strings, so it is modelled on characters.  \<open>str.strip()\<close> removes the
  leading and the trailing whitespace; the whitespace code points below 256 are 9 to 13,
  28 to 32, 133 and 160.  \<open>str.lower()\<close> adds 32 to the code points it changes, which
  below 256 are 65 to 90 and 192 to 222 without 215, and keeps every other one.
\<close>

definition str_replace :: "char \<Rightarrow> char \<Rightarrow> string \<Rightarrow> string" where
  "str_replace old new s = map (\<lambda>c. if c = old then new else c) s"

definition isspace :: "char \<Rightarrow> bool" where
  "isspace c \<longleftrightarrow>
     (of_char c :: nat) \<in> set [9, 10, 11, 12, 13, 28, 29, 30, 31, 32, 133, 160]"

definition str_strip :: "string \<Rightarrow> string" where
  "str_strip s = rev (dropWhile isspace (rev (dropWhile isspace s)))"

definition isupper :: "char \<Rightarrow> bool" where
  "isupper c \<longleftrightarrow>
     65 \<le> (of_char c :: nat) \<and> (of_char c :: nat) \<le> 90 \<or>
     192 \<le> (of_char c :: nat) \<and> (of_char c :: nat) \<le> 222 \<and> (of_char c :: nat) \<noteq> 215"

definition lower_char :: "char \<Rightarrow> char" where
  "lower_char c = (if isupper c then char_of ((of_char c :: nat) + 32) else c)"

definition str_lower :: "string \<Rightarrow> string" where
  "str_lower s = map lower_char s"

text \<open>The three renaming steps in the order \<open>load_excel_to_df\<close> applies them.\<close>

definition rename_column :: "string \<Rightarrow> string" where
  "rename_column name = str_lower (str_strip (str_replace CHR '' '' CHR ''_'' name))"

definition head :: "nat \<Rightarrow> 'c dataframe \<Rightarrow> 'c dataframe" where
  "head n df = df\<lparr>rows := take n (rows df)\<rparr>"

text \<open>
  \<open>load_excel_to_df\<close> over the objects of S3, a map from bucket and key to the workbook
  stored there.  It returns what it prints, the first five rows, together with the
  DataFrame it returns.
\<close>

definition load_excel_to_df ::
  "(string \<times> string \<rightharpoonup> 'c excel_file) \<Rightarrow> string \<Rightarrow> string \<Rightarrow>
   exn + ('c dataframe \<times> 'c dataframe)" where
  "load_excel_to_df s3_objects source_bucket source_key =
     (case s3_objects (source_bucket, source_key) of
        None \<Rightarrow> Inl NoSuchKey
      | Some excel_file \<Rightarrow>
          (case sheet_names excel_file of
             [] \<Rightarrow> Inl IndexError
           | first_name # _ \<Rightarrow>
               (case read_excel excel_file first_name of
                  Inl e \<Rightarrow> Inl e
                | Inr df \<Rightarrow>
                    (let df = df\<lparr>columns := map (str_replace CHR '' '' CHR ''_'') (columns df)\<rparr>;
                         df = df\<lparr>columns := map str_strip (columns df)\<rparr>;
                         df = df\<lparr>columns := map str_lower (columns df)\<rparr>
                     in Inr (head 5 df, df)))))"

text \<open>
  Two workbooks used to evaluate the model: one with two sheets, and one whose column
  names have whitespace on both sides and capitals beyond \<open>Z\<close>.
\<close>

definition example_headers :: "nat excel_file" where
  "example_headers =
     \<lparr>sheets = [(''Orders'',
                 \<lparr>columns = ['' Order ID '',
                             [CHR 0x09] @ ''Ship Mode'' @ [CHR 0x0A, CHR 0x0D],
                             [CHR 0xA0] @ ''CAF'' @ [CHR 0xC9, CHR 0x85]],
                  rows = [[1, 2, 3]]\<rparr>)]\<rparr>"

definition example_workbook :: "nat excel_file" where
  "example_workbook =
     \<lparr>sheets = [(''Returns'', \<lparr>columns = ['' Order ID '', ''Market'', [CHR 9] @ ''Returned Item''],
                                rows = [[1, 2, 3], [4, 5, 6]]\<rparr>),
                (''Notes'', \<lparr>columns = [''Free Text''], rows = [[7]]\<rparr>)]\<rparr>"

section \<open>The cells that create the bucket and the database\<close>

text \<open>
  \<^verbatim>\<open>
  s3 = boto3.client('s3')
  try:
      response = s3.create_bucket(Bucket=s3_bucket_name,
                                 CreateBucketConfiguration={'LocationConstraint': region})
      print("S3 bucket created")
  except s3.exceptions.BucketAlreadyOwnedByYou:
      print("S3 bucket already exists")
  \<close>
  \<^verbatim>\<open>
  try:
      glue_client = boto3.client('glue')
      database_input = {'Name': db_name}
      response = glue_client.create_database(DatabaseInput=database_input)
      print(f"Successfully created database: {db_name}")
  except glue_client.exceptions.AlreadyExistsException:
      print(f"Database {db_name} already exists")
  \<close>

  The remote call of each cell is a parameter: it answers with a response or raises.  The
  result of a cell is what it prints, or the exception that propagates out of it.  The
  clients are built locally by \<open>boto3.client\<close>, with no remote call.
\<close>

definition create_bucket_cell ::
  "(string \<Rightarrow> string \<Rightarrow> exn + 'r) \<Rightarrow> string \<Rightarrow> string \<Rightarrow> exn + string list" where
  "create_bucket_cell create_bucket s3_bucket_name region =
     (case create_bucket s3_bucket_name region of
        Inr response \<Rightarrow> Inr [''S3 bucket created'']
      | Inl e \<Rightarrow>
          if e = BucketAlreadyOwnedByYou then Inr [''S3 bucket already exists'']
          else Inl e)"

definition create_database_cell ::
  "(string \<Rightarrow> exn + 'r) \<Rightarrow> string \<Rightarrow> exn + string list" where
  "create_database_cell create_database db_name =
     (case create_database db_name of
        Inr response \<Rightarrow> Inr [''Successfully created database: '' @ db_name]
      | Inl e \<Rightarrow>
          if e = AlreadyExistsException then Inr [''Database '' @ db_name @ '' already exists'']
          else Inl e)"

section \<open>Metadata filters\<close>

text \<open>
  Modelled from the spec: the data model of the metadata filters and their builder, which
  live in the module \<open>advanced_rag_utils\<close>; the notebooks import and call it, and its
  source is missing.  Every definition of this section follows the specification and the
  notebooks' own description of the filters.

  A filter is a tagged tree.  A leaf is \<open>{field, operator, value}\<close> with one of four
  operators; an internal node combines child filters.  The fields are the metadata
  attributes the criteria speak about.
\<close>

datatype field = Company | Year | DocType | PageNumber | SourceUri

datatype operator = equals | greaterThanOrEquals | lessThanOrEquals | startsWith

datatype meta_value = Str string | Num int

datatype filter =
    Leaf field operator meta_value
  | AndNode "filter list"
  | OrNode "filter list"

text \<open>
  Modelled from the spec: a document chunk, as far as a filter sees it.  It carries
  metadata attributes; an attribute may be missing.
\<close>

type_synonym chunk = "field \<rightharpoonup> meta_value"

text \<open>
  Modelled from the spec: when a leaf holds for the value \<open>a\<close> of the chunk's attribute
  (the remote service decides this; the specification names equality, range and prefix
  conditions): equality, the two range comparisons on numbers, and the prefix test on
  strings.
\<close>

fun compare :: "operator \<Rightarrow> meta_value \<Rightarrow> meta_value \<Rightarrow> bool" where
  "compare equals a v = (a = v)"
| "compare greaterThanOrEquals (Num a) (Num v) = (v \<le> a)"
| "compare lessThanOrEquals (Num a) (Num v) = (a \<le> v)"
| "compare startsWith (Str a) (Str v) = prefix v a"
| "compare _ _ _ = False"

text \<open>
  Modelled from the spec: when a chunk satisfies a filter.  A leaf on a missing attribute
  does not hold; an AND node needs all its children and an OR node one of them.
\<close>

fun satisfies :: "chunk \<Rightarrow> filter \<Rightarrow> bool" where
  "satisfies ch (Leaf f op v) = (case ch f of None \<Rightarrow> False | Some a \<Rightarrow> compare op a v)"
| "satisfies ch (AndNode fs) = (\<forall>f \<in> set fs. satisfies ch f)"
| "satisfies ch (OrNode fs) = (\<exists>f \<in> set fs. satisfies ch f)"

text \<open>
  Modelled from the spec: the criteria of the builder, with the names of the keyword
  arguments in the notebooks.  Each is optional; the year is one year or a list of years,
  and \<open>continuous_range\<close> says whether the criteria indicate that a year list stands for
  the continuous range it spans (the specification does not say how they indicate it).
\<close>

datatype year_arg = OneYear int | YearList "int list"

record criteria =
  company :: "string option"
  year :: "year_arg option"
  continuous_range :: bool
  docType :: "string option"
  min_page :: "int option"
  max_page :: "int option"
  s3_prefix :: "string option"

definition no_criteria :: criteria where
  "no_criteria =
     \<lparr>company = None, year = None, continuous_range = False, docType = None,
      min_page = None, max_page = None, s3_prefix = None\<rparr>"

text \<open>
  Modelled from the spec: the condition of an optional scalar criterion in the missing
  builder.  A supplied criterion contributes one leaf and an absent one contributes
  nothing.
\<close>

definition optional_leaf :: "field \<Rightarrow> operator \<Rightarrow> meta_value option \<Rightarrow> filter list" where
  "optional_leaf f op v = (case v of None \<Rightarrow> [] | Some x \<Rightarrow> [Leaf f op x])"

text \<open>
  Modelled from the spec: the conditions of the year criterion in the missing builder.  A
  year list becomes an OR node of equality leaves, or the two leaves of the range from its
  minimum to its maximum when the criteria indicate a continuous range.  An empty list
  has no minimum and maximum, so it is the empty OR node in both cases.
\<close>

fun year_conditions :: "year_arg option \<Rightarrow> bool \<Rightarrow> filter list" where
  "year_conditions None rng = []"
| "year_conditions (Some (OneYear y)) rng = [Leaf Year equals (Num y)]"
| "year_conditions (Some (YearList (y # ys))) True =
     [Leaf Year greaterThanOrEquals (Num (fold min ys y)),
      Leaf Year lessThanOrEquals (Num (fold max ys y))]"
| "year_conditions (Some (YearList ys)) rng = [OrNode (map (\<lambda>y. Leaf Year equals (Num y)) ys)]"

text \<open>
  Modelled from the spec: the filter builder of \<open>advanced_rag_utils\<close> behind
  \<open>query_financial_data\<close>, whose source is missing.  The conditions of the supplied
  criteria are the children of one AND node.
\<close>

definition build_metadata_filter :: "criteria \<Rightarrow> filter" where
  "build_metadata_filter c =
     AndNode
       (optional_leaf Company equals (map_option Str (company c)) @
        year_conditions (year c) (continuous_range c) @
        optional_leaf DocType equals (map_option Str (docType c)) @
        optional_leaf PageNumber greaterThanOrEquals (map_option Num (min_page c)) @
        optional_leaf PageNumber lessThanOrEquals (map_option Num (max_page c)) @
        optional_leaf SourceUri startsWith (map_option Str (s3_prefix c)))"

text \<open>
  Modelled from the spec: \<open>query_financial_data\<close> of \<open>advanced_rag_utils\<close>, as the
  notebooks call it.  It sends the query with the built filter as the payload of the
  remote retrieve-and-generate call, here the parameter \<open>bedrock_client\<close>.
\<close>

definition query_financial_data ::
  "(string \<Rightarrow> string \<Rightarrow> string \<Rightarrow> filter \<Rightarrow> 'r) \<Rightarrow> string \<Rightarrow> string \<Rightarrow> string \<Rightarrow> criteria \<Rightarrow> 'r"
where
  "query_financial_data bedrock_client query_text kb_id model_arn c =
     bedrock_client query_text kb_id model_arn (build_metadata_filter c)"

text \<open>
  Modelled from the spec: \<open>create_standard_filter\<close> of \<open>advanced_rag_utils\<close>, as the
  notebook describes the filter it builds: an \<open>andAll\<close> of two conditions, \<open>docType\<close> must
  equal the given document type and \<open>year\<close> must equal the given year.
\<close>

definition create_standard_filter :: "string \<Rightarrow> int \<Rightarrow> filter" where
  "create_standard_filter doc_type y =
     AndNode [Leaf DocType equals (Str doc_type), Leaf Year equals (Num y)]"

text \<open>
  Modelled from the spec: what the criteria ask of a chunk, criterion by criterion, in the
  specification's words: all supplied criteria hold, and an absent criterion imposes no
  constraint.
\<close>

definition has_string :: "chunk \<Rightarrow> field \<Rightarrow> (string \<Rightarrow> bool) \<Rightarrow> bool" where
  "has_string ch f P = (case ch f of Some (Str a) \<Rightarrow> P a | _ \<Rightarrow> False)"

definition has_number :: "chunk \<Rightarrow> field \<Rightarrow> (int \<Rightarrow> bool) \<Rightarrow> bool" where
  "has_number ch f P = (case ch f of Some (Num a) \<Rightarrow> P a | _ \<Rightarrow> False)"

definition year_holds :: "year_arg \<Rightarrow> bool \<Rightarrow> chunk \<Rightarrow> bool" where
  "year_holds y rng ch =
     (case y of
        OneYear v \<Rightarrow> has_number ch Year (\<lambda>a. a = v)
      | YearList vs \<Rightarrow>
          if rng \<and> vs \<noteq> [] then has_number ch Year (\<lambda>a. Min (set vs) \<le> a \<and> a \<le> Max (set vs))
          else has_number ch Year (\<lambda>a. a \<in> set vs))"

definition criteria_hold :: "criteria \<Rightarrow> chunk \<Rightarrow> bool" where
  "criteria_hold c ch \<longleftrightarrow>
     (case company c of None \<Rightarrow> True | Some v \<Rightarrow> has_string ch Company (\<lambda>a. a = v)) \<and>
     (case year c of None \<Rightarrow> True | Some y \<Rightarrow> year_holds y (continuous_range c) ch) \<and>
     (case docType c of None \<Rightarrow> True | Some v \<Rightarrow> has_string ch DocType (\<lambda>a. a = v)) \<and>
     (case min_page c of None \<Rightarrow> True | Some v \<Rightarrow> has_number ch PageNumber (\<lambda>a. v \<le> a)) \<and>
     (case max_page c of None \<Rightarrow> True | Some v \<Rightarrow> has_number ch PageNumber (\<lambda>a. a \<le> v)) \<and>
     (case s3_prefix c of None \<Rightarrow> True | Some v \<Rightarrow> has_string ch SourceUri (\<lambda>a. prefix v a))"

definition amazon_2023_2024 :: criteria where
  "amazon_2023_2024 = no_criteria\<lparr>company := Some ''Amazon'', year := Some (YearList [2023, 2024])\<rparr>"

definition example_chunk :: chunk where
  "example_chunk =
     [Company \<mapsto> Str ''Amazon'', Year \<mapsto> Num 2024, DocType \<mapsto> Str ''10K Report'',
      PageNumber \<mapsto> Num 12, SourceUri \<mapsto> Str ''s3://bucket/data/pdf_documents/a.pdf'']"

section \<open>The cost-estimation helper and the cell that reads its report\<close>

text \<open>
  Numbers that are Python floats are rationals here.  The metrics API answers, for a
  model id and a time interval, with the token counts of the interval.
\<close>

record token_counts =
  input_tokens :: nat
  invocation_count :: nat

text \<open>
  Modelled from the spec: \<open>get_bedrock_token_based_cost\<close> of \<open>advanced_rag_utils\<close>, of which
  the notebooks hold the calls only.  It queries the metrics API, the parameter \<open>metrics\<close>,
  for the token counts of the model between the two times, and multiplies the input
  tokens by the model's price per token in the static price table, the parameter
  \<open>price_table\<close>.  The report is a dictionary with the four keys the notebooks read; times
  are in seconds, and the duration is the length of the interval.
\<close>

definition get_bedrock_token_based_cost ::
  "(string \<Rightarrow> rat \<Rightarrow> rat \<Rightarrow> token_counts) \<Rightarrow> (string \<Rightarrow> rat) \<Rightarrow> string \<Rightarrow> rat \<Rightarrow> rat \<Rightarrow>
   (string \<rightharpoonup> rat)" where
  "get_bedrock_token_based_cost metrics price_table model_id start_time end_time =
     (let counts = metrics model_id start_time end_time in
      [''duration in minutes'' \<mapsto> (end_time - start_time) / 60,
       ''input_tokens'' \<mapsto> of_nat (input_tokens counts),
       ''invocation_count'' \<mapsto> of_nat (invocation_count counts),
       ''total token costs'' \<mapsto> of_nat (input_tokens counts) * price_table model_id])"

text \<open>
  The notebook cell that builds \<open>new_row\<close> from the report:
  \<^verbatim>\<open>
  new_row = {
      'chunking_algo': kb_chunking_strategy,
      'embedding_seconds': vector_store_embedding_cost['duration in minutes']*60,
      'input_tokens': vector_store_embedding_cost['input_tokens'],
      'invocation_count': vector_store_embedding_cost['invocation_count'],
      'total_token_costs': vector_store_embedding_cost['total token costs']
  }
  \<close>
  Indexing the dictionary with a key it does not have raises \<open>KeyError\<close>; the entries are
  evaluated in order.
\<close>

datatype cell_value = Text string | Number rat

definition getitem :: "(string \<rightharpoonup> rat) \<Rightarrow> string \<Rightarrow> exn + rat" where
  "getitem d k = (case d k of None \<Rightarrow> Inl (KeyError k) | Some v \<Rightarrow> Inr v)"

definition new_row :: "string \<Rightarrow> (string \<rightharpoonup> rat) \<Rightarrow> exn + (string \<times> cell_value) list" where
  "new_row kb_chunking_strategy vector_store_embedding_cost =
     (case getitem vector_store_embedding_cost ''duration in minutes'' of
        Inl e \<Rightarrow> Inl e
      | Inr duration \<Rightarrow>
     (case getitem vector_store_embedding_cost ''input_tokens'' of
        Inl e \<Rightarrow> Inl e
      | Inr tokens \<Rightarrow>
     (case getitem vector_store_embedding_cost ''invocation_count'' of
        Inl e \<Rightarrow> Inl e
      | Inr invocations \<Rightarrow>
     (case getitem vector_store_embedding_cost ''total token costs'' of
        Inl e \<Rightarrow> Inl e
      | Inr total_costs \<Rightarrow>
          Inr [(''chunking_algo'', Text kb_chunking_strategy),
               (''embedding_seconds'', Number (duration * 60)),
               (''input_tokens'', Number tokens),
               (''invocation_count'', Number invocations),
               (''total_token_costs'', Number total_costs)]))))"

definition example_metrics :: "string \<Rightarrow> rat \<Rightarrow> rat \<Rightarrow> token_counts" where
  "example_metrics model_id start_time end_time =
     (if model_id = ''amazon.titan-embed-text-v2:0''
      then \<lparr>input_tokens = 120000, invocation_count = 35\<rparr>
      else \<lparr>input_tokens = 0, invocation_count = 0\<rparr>)"

definition example_price_table :: "string \<Rightarrow> rat" where
  "example_price_table model_id =
     (if model_id = ''amazon.titan-embed-text-v2:0'' then 2 / 100000000 else 0)"

section \<open>Properties of the polling loop\<close>

lemma terminal_iff:
  "terminal st \<longleftrightarrow> st = ''SUCCEEDED'' \<or> st = ''FAILED'' \<or> st = ''CANCELLED''"
  by (auto simp: terminal_def)

lemma wait_for_query_exit:
  "terminal (response_state (poll k)) \<Longrightarrow> wait_for_query poll k slept = Some (k, slept, poll k)"
  by (subst wait_for_query.simps) simp

lemma wait_for_query_sleep:
  "\<not> terminal (response_state (poll k)) \<Longrightarrow>
   wait_for_query poll k slept = wait_for_query poll (Suc k) (slept + 1)"
  by (subst wait_for_query.simps) simp

lemma wait_for_query_first:
  "terminal (response_state (poll (k + n))) \<Longrightarrow>
   (\<forall>j<n. \<not> terminal (response_state (poll (k + j)))) \<Longrightarrow>
   wait_for_query poll k slept = Some (k + n, slept + n, poll (k + n))"
proof (induction n arbitrary: k slept)
  case 0
  then show ?case by (simp add: wait_for_query_exit)
next
  case (Suc n)
  from Suc.prems(2) have now: "\<not> terminal (response_state (poll k))"
    by (metis add.right_neutral zero_less_Suc)
  have later: "\<forall>j<n. \<not> terminal (response_state (poll (Suc k + j)))"
    using Suc.prems(2) by (metis Suc_less_eq add_Suc_shift)
  have "wait_for_query poll (Suc k) (slept + 1) =
          Some (Suc k + n, (slept + 1) + n, poll (Suc k + n))"
    using Suc.prems(1) later by (intro Suc.IH) simp_all
  with now show ?case by (simp add: wait_for_query_sleep)
qed

lemma wait_for_query_sound:
  assumes "wait_for_query poll k slept = Some res"
  shows "\<exists>n. res = (k + n, slept + n, poll (k + n)) \<and> terminal (response_state (poll (k + n))) \<and>
       (\<forall>j<n. \<not> terminal (response_state (poll (k + j))))"
proof (rule wait_for_query.raw_induct [where P = "\<lambda>poll k slept res.
    \<exists>n. res = (k + n, slept + n, poll (k + n)) \<and> terminal (response_state (poll (k + n))) \<and>
       (\<forall>j<n. \<not> terminal (response_state (poll (k + j))))", OF _ assms])
  fix wait :: "(nat \<Rightarrow> execution_response) \<Rightarrow> nat \<Rightarrow> nat \<Rightarrow> (nat \<times> nat \<times> execution_response) option"
  fix poll k slept res
  assume IH: "\<And>poll k slept res. wait poll k slept = Some res \<Longrightarrow>
    \<exists>n. res = (k + n, slept + n, poll (k + n)) \<and> terminal (response_state (poll (k + n))) \<and>
       (\<forall>j<n. \<not> terminal (response_state (poll (k + j))))"
  assume body: "(if terminal (response_state (poll k)) then Some (k, slept, poll k)
      else wait poll (Suc k) (slept + 1)) = Some res"
  show "\<exists>n. res = (k + n, slept + n, poll (k + n)) \<and> terminal (response_state (poll (k + n))) \<and>
       (\<forall>j<n. \<not> terminal (response_state (poll (k + j))))"
  proof (cases "terminal (response_state (poll k))")
    case True
    with body have "res = (k, slept, poll k)" by simp
    with True show ?thesis by (intro exI [of _ 0]) simp
  next
    case False
    with body have "wait poll (Suc k) (slept + 1) = Some res" by simp
    from IH [OF this] obtain n where n: "res = (Suc k + n, slept + 1 + n, poll (Suc k + n))"
      "terminal (response_state (poll (Suc k + n)))"
      "\<forall>j<n. \<not> terminal (response_state (poll (Suc k + j)))" by blast
    have "\<forall>j<Suc n. \<not> terminal (response_state (poll (k + j)))"
    proof (intro allI impI)
      fix j assume "j < Suc n"
      show "\<not> terminal (response_state (poll (k + j)))"
      proof (cases j)
        case 0 with False show ?thesis by simp
      next
        case (Suc i)
        with \<open>j < Suc n\<close> n(3) show ?thesis by simp
      qed
    qed
    with n(1,2) show ?thesis by (intro exI [of _ "Suc n"]) simp
  qed
qed

lemma wait_for_query_never:
  "wait_for_query poll k slept = None \<longleftrightarrow> (\<forall>j\<ge>k. \<not> terminal (response_state (poll j)))"
proof
  assume none: "wait_for_query poll k slept = None"
  show "\<forall>j\<ge>k. \<not> terminal (response_state (poll j))"
  proof (rule ccontr)
    assume "\<not> (\<forall>j\<ge>k. \<not> terminal (response_state (poll j)))"
    then have ex: "\<exists>n. terminal (response_state (poll (k + n)))"
      by (metis le_Suc_ex)
    define n where "n = (LEAST n. terminal (response_state (poll (k + n))))"
    have t: "terminal (response_state (poll (k + n)))"
      unfolding n_def using ex by (rule LeastI_ex)
    have "\<forall>j<n. \<not> terminal (response_state (poll (k + j)))"
      unfolding n_def using not_less_Least by blast
    from wait_for_query_first [OF t this] none show False by simp
  qed
next
  assume never: "\<forall>j\<ge>k. \<not> terminal (response_state (poll j))"
  show "wait_for_query poll k slept = None"
  proof (cases "wait_for_query poll k slept")
    case None then show ?thesis .
  next
    case (Some res)
    from wait_for_query_sound [OF this] never show ?thesis by auto
  qed
qed

lemma wait_for_query_from_start:
  "wait_for_query poll 0 0 = Some (n, s, r) \<longleftrightarrow>
     terminal (response_state (poll n)) \<and> (\<forall>j<n. \<not> terminal (response_state (poll j))) \<and>
     s = n \<and> r = poll n"
proof
  assume "wait_for_query poll 0 0 = Some (n, s, r)"
  from wait_for_query_sound [OF this] show
    "terminal (response_state (poll n)) \<and> (\<forall>j<n. \<not> terminal (response_state (poll j))) \<and>
     s = n \<and> r = poll n"
    by auto
next
  assume a: "terminal (response_state (poll n)) \<and> (\<forall>j<n. \<not> terminal (response_state (poll j))) \<and>
     s = n \<and> r = poll n"
  then have "wait_for_query poll 0 0 = Some (0 + n, 0 + n, poll (0 + n))"
    by (intro wait_for_query_first) simp_all
  with a show "wait_for_query poll 0 0 = Some (n, s, r)" by simp
qed

lemma execute_athena_query_after_wait:
  assumes "terminal (response_state (get_query_execution client qid n))"
    and "\<forall>j<n. \<not> terminal (response_state (get_query_execution client qid j))"
    and "qid = start_query_execution client query database s3_output"
  shows "execute_athena_query client query database s3_output =
           Some (after_wait client qid (get_query_execution client qid n))"
proof -
  have "wait_for_query (get_query_execution client qid) 0 0 =
          Some (n, n, get_query_execution client qid n)"
    using assms(1,2) by (simp add: wait_for_query_from_start)
  with assms(3) show ?thesis by (simp add: execute_athena_query_def Let_def)
qed

text \<open>
  Claim C1.  The wait of \<open>execute_athena_query\<close> is a fixed-interval polling loop on the
  state field of the query execution.  The terminal states are exactly SUCCEEDED, FAILED
  and CANCELLED.  An iteration that observes any other state sleeps one second and polls
  again; an iteration that observes a terminal state leaves the loop at once.  Started
  from the first poll, the loop returns at poll \<open>n\<close> exactly when poll \<open>n\<close> is the first to
  observe a terminal state, having slept \<open>n\<close> seconds, for any \<open>n\<close>: there is no timeout and
  no bound on the iterations.  When no poll ever observes a terminal state the loop, and
  with it the helper, never returns.
\<close>

theorem wait_for_query_fixed_interval_polling:
  "(terminal st \<longleftrightarrow> st = ''SUCCEEDED'' \<or> st = ''FAILED'' \<or> st = ''CANCELLED'') \<and>
   (\<not> terminal (response_state (poll k)) \<longrightarrow>
      wait_for_query poll k slept = wait_for_query poll (Suc k) (slept + 1)) \<and>
   (terminal (response_state (poll k)) \<longrightarrow>
      wait_for_query poll k slept = Some (k, slept, poll k)) \<and>
   (wait_for_query poll 0 0 = Some (n, s, r) \<longleftrightarrow>
      terminal (response_state (poll n)) \<and> (\<forall>j<n. \<not> terminal (response_state (poll j))) \<and>
      s = n \<and> r = poll n) \<and>
   (wait_for_query poll 0 0 = None \<longleftrightarrow> (\<forall>j. \<not> terminal (response_state (poll j)))) \<and>
   (execute_athena_query client query database s3_output = None \<longleftrightarrow>
      (\<forall>j. \<not> terminal (response_state
         (get_query_execution client (start_query_execution client query database s3_output) j))))"
proof -
  have never: "wait_for_query p 0 0 = None \<longleftrightarrow> (\<forall>j. \<not> terminal (response_state (p j)))" for p
    by (simp add: wait_for_query_never)
  have "execute_athena_query client query database s3_output = None \<longleftrightarrow>
      wait_for_query (get_query_execution client
        (start_query_execution client query database s3_output)) 0 0 = None"
    by (simp add: execute_athena_query_def Let_def split: option.splits)
  then show ?thesis
    using never by (simp add: terminal_iff wait_for_query_sleep wait_for_query_exit
        wait_for_query_from_start)
qed

theorem wait_for_query_fixed_interval_polling_witness:
  "\<not> terminal (response_state (example_poll ''SUCCEEDED'' None 1)) \<and>
   wait_for_query (example_poll ''SUCCEEDED'' None) 1 1 =
     wait_for_query (example_poll ''SUCCEEDED'' None) (Suc 1) (1 + 1) \<and>
   terminal (response_state (example_poll ''SUCCEEDED'' None 2)) \<and>
   wait_for_query (example_poll ''SUCCEEDED'' None) 2 2 =
     Some (2, 2, example_response ''SUCCEEDED'' None) \<and>
   wait_for_query (example_poll ''SUCCEEDED'' None) 0 0 =
     Some (2, 2, example_response ''SUCCEEDED'' None) \<and>
   wait_for_query (\<lambda>k. example_response ''RUNNING'' None) 0 0 = None \<and>
   execute_athena_query (example_client (\<lambda>k. example_response ''QUEUED'' None) [])
     ''SELECT 1'' ''retail'' ''s3://out/'' = None"
proof -
  let ?p = "example_poll ''SUCCEEDED'' None"
  let ?c = "example_client (\<lambda>k. example_response ''QUEUED'' None) []"
  note ev = example_poll_def example_response_def response_state_def terminal_def
  have running: "\<not> terminal (response_state (?p 1))"
    by (simp add: ev)
  have reached: "terminal (response_state (?p 2))"
    by (simp add: ev)
  have before: "\<forall>j<2. \<not> terminal (response_state (?p j))"
    by (simp add: ev)
  have final: "?p 2 = example_response ''SUCCEEDED'' None"
    by (simp add: example_poll_def)
  note T = wait_for_query_fixed_interval_polling
  have sleep: "wait_for_query ?p 1 1 = wait_for_query ?p (Suc 1) (1 + 1)"
    by (rule T [where poll = ?p and k = 1 and slept = 1, THEN conjunct2, THEN conjunct1,
          rule_format, OF running])
  have "wait_for_query ?p 2 2 = Some (2, 2, ?p 2)"
    by (rule T [where poll = ?p and k = 2 and slept = 2, THEN conjunct2, THEN conjunct2,
          THEN conjunct1, rule_format, OF reached])
  then have leave: "wait_for_query ?p 2 2 = Some (2, 2, example_response ''SUCCEEDED'' None)"
    by (simp only: final)
  have "wait_for_query ?p 0 0 = Some (2, 2, ?p 2)"
    using reached before
    by (simp only: T [where poll = ?p and n = 2 and s = 2 and r = "?p 2", THEN conjunct2,
          THEN conjunct2, THEN conjunct2, THEN conjunct1] simp_thms)
  then have run: "wait_for_query ?p 0 0 = Some (2, 2, example_response ''SUCCEEDED'' None)"
    by (simp only: final)
  have "\<forall>j. \<not> terminal (response_state ((\<lambda>k. example_response ''RUNNING'' None) j))"
    by (simp add: ev)
  then have forever: "wait_for_query (\<lambda>k. example_response ''RUNNING'' None) 0 0 = None"
    by (simp only: T [where poll = "\<lambda>k. example_response ''RUNNING'' None", THEN conjunct2,
          THEN conjunct2, THEN conjunct2, THEN conjunct2, THEN conjunct1] simp_thms)
  have "\<forall>j. \<not> terminal (response_state (get_query_execution ?c
          (start_query_execution ?c ''SELECT 1'' ''retail'' ''s3://out/'') j))"
    by (simp add: ev example_client_def)
  then have stuck: "execute_athena_query ?c ''SELECT 1'' ''retail'' ''s3://out/'' = None"
    by (simp only: T [where client = ?c and query = "''SELECT 1''" and database = "''retail''"
        and ?s3_output = "''s3://out/''", THEN conjunct2,
          THEN conjunct2, THEN conjunct2, THEN conjunct2, THEN conjunct2] simp_thms)
  from running sleep reached leave run forever stuck show ?thesis by (intro conjI)
qed

section \<open>Outcome of \<open>execute_athena_query\<close>\<close>

lemma collect_results_rows:
  "collect_results pages =
     map (\<lambda>row. map field_value (Data row)) (concat (map (\<lambda>page. Rows (ResultSet page)) pages))"
  by (simp add: collect_results_def map_concat comp_def)

text \<open>
  Claim C2.  Once the wait has observed a terminal state, \<open>execute_athena_query\<close> raises
  if and only if that state is not SUCCEEDED, that is, if it is FAILED or CANCELLED.  The
  exception's message is \<open>Query failed: \<close> followed by the \<open>StateChangeReason\<close> of the last
  response, or by \<open>No error message available\<close> when that field is absent.  With the
  state SUCCEEDED the helper returns without raising.
\<close>

theorem execute_athena_query_raises:
  assumes "qid = start_query_execution client query database s3_output"
    and "terminal (response_state (get_query_execution client qid n))"
    and "\<forall>j<n. \<not> terminal (response_state (get_query_execution client qid j))"
  shows
   "((\<exists>e. execute_athena_query client query database s3_output = Some (Inl e)) \<longleftrightarrow>
       response_state (get_query_execution client qid n) \<noteq> ''SUCCEEDED'') \<and>
    (response_state (get_query_execution client qid n) \<noteq> ''SUCCEEDED'' \<longleftrightarrow>
       response_state (get_query_execution client qid n) = ''FAILED'' \<or>
       response_state (get_query_execution client qid n) = ''CANCELLED'') \<and>
    (response_state (get_query_execution client qid n) \<noteq> ''SUCCEEDED'' \<longrightarrow>
       execute_athena_query client query database s3_output =
         Some (Inl (Exception (''Query failed: '' @
           (case StateChangeReason (Status (QueryExecution (get_query_execution client qid n))) of
              None \<Rightarrow> ''No error message available''
            | Some reason \<Rightarrow> reason))))) \<and>
    (response_state (get_query_execution client qid n) = ''SUCCEEDED'' \<longrightarrow>
       (\<exists>out. execute_athena_query client query database s3_output = Some (Inr out)))"
proof -
  let ?r = "get_query_execution client qid n"
  have run: "execute_athena_query client query database s3_output = Some (after_wait client qid ?r)"
    using assms by (intro execute_athena_query_after_wait) simp_all
  have states: "response_state ?r \<noteq> ''SUCCEEDED'' \<longleftrightarrow>
      response_state ?r = ''FAILED'' \<or> response_state ?r = ''CANCELLED''"
    using assms(2) by (auto simp: terminal_iff)
  have failed: "response_state ?r \<noteq> ''SUCCEEDED'' \<Longrightarrow>
      after_wait client qid ?r = Inl (Exception (''Query failed: '' @ error_message ?r))"
    by (simp add: after_wait_def)
  have ok: "response_state ?r = ''SUCCEEDED'' \<Longrightarrow> \<exists>out. after_wait client qid ?r = Inr out"
    by (simp add: after_wait_def Let_def)
  show ?thesis
    unfolding run using states failed ok
    by (cases "response_state ?r = ''SUCCEEDED''") (auto simp: error_message_def)
qed

theorem execute_athena_query_raises_witness:
  "execute_athena_query (example_client (example_poll ''FAILED'' (Some ''SYNTAX_ERROR'')) [])
      ''SELEC 1'' ''retail'' ''s3://out/'' =
     Some (Inl (Exception ''Query failed: SYNTAX_ERROR'')) \<and>
   execute_athena_query (example_client (example_poll ''CANCELLED'' None) [])
      ''SELECT 1'' ''retail'' ''s3://out/'' =
     Some (Inl (Exception ''Query failed: No error message available'')) \<and>
   (\<exists>out. execute_athena_query (example_client (example_poll ''SUCCEEDED'' None) [])
      ''SELECT 1'' ''retail'' ''s3://out/'' = Some (Inr out))"
proof -
  note ev = example_poll_def example_response_def response_state_def terminal_def
    example_client_def
  have failed: "execute_athena_query (example_client (example_poll ''FAILED'' (Some ''SYNTAX_ERROR'')) [])
      ''SELEC 1'' ''retail'' ''s3://out/'' = Some (Inl (Exception ''Query failed: SYNTAX_ERROR''))"
    using execute_athena_query_raises [of "''q-1''"
        "example_client (example_poll ''FAILED'' (Some ''SYNTAX_ERROR'')) []"
        "''SELEC 1''" "''retail''" "''s3://out/''" 2]
    by (simp add: ev)
  have cancelled: "execute_athena_query (example_client (example_poll ''CANCELLED'' None) [])
      ''SELECT 1'' ''retail'' ''s3://out/'' =
     Some (Inl (Exception ''Query failed: No error message available''))"
    using execute_athena_query_raises [of "''q-1''"
        "example_client (example_poll ''CANCELLED'' None) []"
        "''SELECT 1''" "''retail''" "''s3://out/''" 2]
    by (simp add: ev)
  have succeeded: "\<exists>out. execute_athena_query (example_client (example_poll ''SUCCEEDED'' None) [])
      ''SELECT 1'' ''retail'' ''s3://out/'' = Some (Inr out)"
    using execute_athena_query_raises [of "''q-1''"
        "example_client (example_poll ''SUCCEEDED'' None) []"
        "''SELECT 1''" "''retail''" "''s3://out/''" 2]
    by (simp add: ev)
  from failed cancelled succeeded show ?thesis by (intro conjI)
qed

text \<open>
  Claim C8.  With the terminal state SUCCEEDED, the collected rows are the rows of all
  pages in order, each field replaced by its \<open>VarCharValue\<close>, or by the empty string when
  it has none.  If at least one row was collected, the first row becomes the columns of
  the displayed DataFrame and the remaining rows its data; if none was collected, no
  DataFrame is built and \<open>Successfully executed.\<close> is printed.
\<close>

theorem execute_athena_query_result_shape:
  assumes "qid = start_query_execution client query database s3_output"
    and "terminal (response_state (get_query_execution client qid n))"
    and "\<forall>j<n. \<not> terminal (response_state (get_query_execution client qid j))"
    and "response_state (get_query_execution client qid n) = ''SUCCEEDED''"
    and "results = map (\<lambda>row. map (\<lambda>field. case VarCharValue field of None \<Rightarrow> [] | Some v \<Rightarrow> v)
                                  (Data row))
                       (concat (map (\<lambda>page. Rows (ResultSet page)) (paginate client qid)))"
  shows
   "(\<forall>header body. results = header # body \<longrightarrow>
        execute_athena_query client query database s3_output =
          Some (Inr (Display \<lparr>columns = header, rows = body\<rparr>))) \<and>
    (results = [] \<longrightarrow> execute_athena_query client query database s3_output =
        Some (Inr (Print ''Successfully executed.'')))"
proof -
  have run: "execute_athena_query client query database s3_output =
      Some (after_wait client qid (get_query_execution client qid n))"
    using assms(1-3) by (intro execute_athena_query_after_wait) simp_all
  have results: "results = collect_results (paginate client qid)"
    unfolding assms(5) collect_results_rows field_value_def ..
  show ?thesis
    unfolding run by (auto simp: after_wait_def assms(4) results [symmetric])
qed

theorem execute_athena_query_result_shape_witness:
  "execute_athena_query (example_client (example_poll ''SUCCEEDED'' None) example_pages)
      ''SELECT * FROM returns LIMIT 5'' ''retail'' ''s3://out/'' =
     Some (Inr (Display \<lparr>columns = [''order_id'', ''market''],
                          rows = [[''A-1'', ''''], [''A-2'', ''EU'']]\<rparr>)) \<and>
   execute_athena_query (example_client (example_poll ''SUCCEEDED'' None) [])
      ''CREATE EXTERNAL TABLE t'' ''retail'' ''s3://out/'' =
     Some (Inr (Print ''Successfully executed.''))"
proof -
  note ev = example_poll_def example_response_def response_state_def terminal_def
    example_client_def example_pages_def
  have shown: "execute_athena_query (example_client (example_poll ''SUCCEEDED'' None) example_pages)
      ''SELECT * FROM returns LIMIT 5'' ''retail'' ''s3://out/'' =
     Some (Inr (Display \<lparr>columns = [''order_id'', ''market''],
                          rows = [[''A-1'', ''''], [''A-2'', ''EU'']]\<rparr>))"
    using execute_athena_query_result_shape [of "''q-1''"
        "example_client (example_poll ''SUCCEEDED'' None) example_pages"
        "''SELECT * FROM returns LIMIT 5''" "''retail''" "''s3://out/''" 2
        "[[''order_id'', ''market''], [''A-1'', ''''], [''A-2'', ''EU'']]"]
    by (simp add: ev)
  have printed: "execute_athena_query (example_client (example_poll ''SUCCEEDED'' None) [])
      ''CREATE EXTERNAL TABLE t'' ''retail'' ''s3://out/'' =
     Some (Inr (Print ''Successfully executed.''))"
    using execute_athena_query_result_shape [of "''q-1''"
        "example_client (example_poll ''SUCCEEDED'' None) []"
        "''CREATE EXTERNAL TABLE t''" "''retail''" "''s3://out/''" 2 "[]"]
    by (simp add: ev)
  from shown printed show ?thesis by (intro conjI)
qed

section \<open>Properties of the Excel loader and of the creating cells\<close>


lemma of_char_lower_char:
  assumes "isupper c"
  shows "(of_char (lower_char c) :: nat) = of_char c + 32"
proof -
  from assms have "(of_char c :: nat) + 32 < 256" by (auto simp: isupper_def)
  with assms show ?thesis by (simp add: lower_char_def)
qed

lemma lower_char_not_upper: "\<not> isupper (lower_char c)"
proof (cases "isupper c")
  case True
  then have "(of_char (lower_char c) :: nat) = of_char c + 32" by (rule of_char_lower_char)
  moreover from True have "97 \<le> (of_char c :: nat) + 32 \<and> (of_char c :: nat) + 32 \<le> 122 \<or>
      224 \<le> (of_char c :: nat) + 32"
    by (auto simp: isupper_def)
  ultimately show ?thesis by (auto simp: isupper_def [of "lower_char c"])
next
  case False
  then show ?thesis by (simp add: lower_char_def)
qed

lemma lower_char_idem: "lower_char (lower_char c) = lower_char c"
  using lower_char_not_upper [of c] by (simp add: lower_char_def [of "lower_char c"])

lemma lower_char_space: "lower_char c = CHR '' '' \<longleftrightarrow> c = CHR '' ''"
proof (cases "isupper c")
  case True
  then have "(of_char (lower_char c) :: nat) = of_char c + 32" by (rule of_char_lower_char)
  moreover from True have "0 < (of_char c :: nat)" by (auto simp: isupper_def)
  ultimately have "(of_char (lower_char c) :: nat) \<noteq> of_char CHR '' ''" by simp
  moreover from True have "c \<noteq> CHR '' ''" by (auto simp: isupper_def)
  ultimately show ?thesis by auto
next
  case False
  then show ?thesis by (simp add: lower_char_def)
qed

lemma set_str_strip: "set (str_strip s) \<subseteq> set s"
proof -
  have "set (str_strip s) \<subseteq> set (dropWhile isspace s)"
    unfolding str_strip_def using set_dropWhileD by fastforce
  also have "\<dots> \<subseteq> set s" using set_dropWhileD by fastforce
  finally show ?thesis .
qed

lemma str_replace_free: "old \<noteq> new \<Longrightarrow> old \<notin> set (str_replace old new s)"
  by (auto simp: str_replace_def)

lemma rename_no_space: "CHR '' '' \<notin> set (rename_column name)"
proof
  assume "CHR '' '' \<in> set (rename_column name)"
  then obtain c where c: "c \<in> set (str_strip (str_replace CHR '' '' CHR ''_'' name))"
    and "lower_char c = CHR '' ''"
    by (auto simp: rename_column_def str_lower_def)
  then have "c = CHR '' ''" by (simp add: lower_char_space)
  with c set_str_strip have "CHR '' '' \<in> set (str_replace CHR '' '' CHR ''_'' name)" by blast
  then show False using str_replace_free [of "CHR '' ''" "CHR ''_''" name] by simp
qed

lemma str_lower_idem: "str_lower (str_lower s) = str_lower s"
  by (simp add: str_lower_def lower_char_idem)

lemma str_lower_no_upper: "c \<in> set (str_lower s) \<Longrightarrow> \<not> isupper c"
  by (auto simp: str_lower_def lower_char_not_upper)

lemma str_strip_kept:
  assumes "s \<noteq> []" "\<not> isspace (hd s)" "\<not> isspace (last s)"
  shows "str_strip s = s"
proof -
  from assms(1,2) have "dropWhile isspace s = s" by (cases s) simp_all
  moreover from assms(1,3) have "dropWhile isspace (rev s) = rev s"
    by (cases "rev s") (simp_all add: hd_rev [symmetric])
  ultimately show ?thesis by (simp add: str_strip_def)
qed


lemma lower_char_isspace: "isspace (lower_char c) \<longleftrightarrow> isspace c"
proof (cases "isupper c")
  case True
  then have "\<not> isspace c" by (auto simp: isupper_def isspace_def)
  moreover have "\<not> isspace (lower_char c)"
  proof -
    from True have "(of_char (lower_char c) :: nat) = of_char c + 32"
      by (rule of_char_lower_char)
    moreover from True have "97 \<le> (of_char c :: nat) + 32 \<and> (of_char c :: nat) + 32 \<le> 122 \<or>
        224 \<le> (of_char c :: nat) + 32"
      by (auto simp: isupper_def)
    ultimately show ?thesis by (auto simp: isspace_def)
  qed
  ultimately show ?thesis by simp
next
  case False
  then show ?thesis by (simp add: lower_char_def)
qed

lemma str_strip_decomposition:
  "s = takeWhile isspace s @ str_strip s @
       rev (takeWhile isspace (rev (dropWhile isspace s)))"
proof -
  let ?d = "dropWhile isspace s"
  have "rev (takeWhile isspace (rev ?d) @ dropWhile isspace (rev ?d)) = rev (rev ?d)"
    by (simp only: takeWhile_dropWhile_id)
  then have "?d = rev (dropWhile isspace (rev ?d)) @ rev (takeWhile isspace (rev ?d))"
    by (simp only: rev_append rev_rev_ident)
  then have "takeWhile isspace s @ ?d =
      takeWhile isspace s @ str_strip s @ rev (takeWhile isspace (rev ?d))"
    by (simp only: str_strip_def append_assoc)
  then show ?thesis by (simp only: takeWhile_dropWhile_id)
qed

lemma last_dropWhile: "dropWhile P xs \<noteq> [] \<Longrightarrow> last (dropWhile P xs) = last xs"
  using last_appendR [of "dropWhile P xs" "takeWhile P xs"] by simp

lemma str_strip_last:
  assumes "str_strip s \<noteq> []"
  shows "\<not> isspace (last (str_strip s))"
proof -
  let ?e = "dropWhile isspace (rev (dropWhile isspace s))"
  from assms have e: "?e \<noteq> []" by (simp add: str_strip_def)
  then have "\<not> isspace (hd ?e)" by (rule hd_dropWhile)
  moreover have "last (str_strip s) = hd ?e" by (simp add: str_strip_def last_rev)
  ultimately show ?thesis by simp
qed

lemma str_strip_hd:
  assumes "str_strip s \<noteq> []"
  shows "\<not> isspace (hd (str_strip s))"
proof -
  let ?d = "dropWhile isspace s"
  let ?e = "dropWhile isspace (rev ?d)"
  from assms have e: "?e \<noteq> []" by (simp add: str_strip_def)
  have d: "?d \<noteq> []"
  proof
    assume "?d = []"
    then have "?e = []" by (simp del: dropWhile_eq_Nil_conv)
    with e show False by (simp del: dropWhile_eq_Nil_conv)
  qed
  from d have "\<not> isspace (hd ?d)" by (rule hd_dropWhile)
  moreover have "hd (str_strip s) = last ?e" by (simp add: str_strip_def hd_rev)
  moreover have "last ?e = last (rev ?d)" using e by (rule last_dropWhile)
  moreover have "last (rev ?d) = hd ?d" by (simp add: last_rev)
  ultimately show ?thesis by simp
qed

lemma str_strip_removes:
  "(\<exists>leading trailing. s = leading @ str_strip s @ trailing \<and>
      (\<forall>x \<in> set leading. isspace x) \<and> (\<forall>x \<in> set trailing. isspace x)) \<and>
   (str_strip s \<noteq> [] \<longrightarrow>
      \<not> isspace (hd (str_strip s)) \<and> \<not> isspace (last (str_strip s)))"
proof (intro conjI impI)
  have "\<forall>x \<in> set (takeWhile isspace s). isspace x"
    by (auto dest: set_takeWhileD)
  moreover have "\<forall>x \<in> set (rev (takeWhile isspace (rev (dropWhile isspace s)))). isspace x"
    by (auto dest: set_takeWhileD)
  ultimately show "\<exists>leading trailing. s = leading @ str_strip s @ trailing \<and>
      (\<forall>x \<in> set leading. isspace x) \<and> (\<forall>x \<in> set trailing. isspace x)"
    using str_strip_decomposition [of s] by blast
qed (simp_all add: str_strip_hd str_strip_last)

lemma rename_column_ends:
  assumes "rename_column name \<noteq> []"
  shows "\<not> isspace (hd (rename_column name)) \<and> \<not> isspace (last (rename_column name))"
proof -
  let ?t = "str_strip (str_replace CHR '' '' CHR ''_'' name)"
  from assms have t: "?t \<noteq> []" by (simp add: rename_column_def str_lower_def)
  then have "hd (rename_column name) = lower_char (hd ?t)"
    by (simp add: rename_column_def str_lower_def hd_map)
  moreover from t have "last (rename_column name) = lower_char (last ?t)"
    by (simp add: rename_column_def str_lower_def last_map)
  ultimately show ?thesis
    using str_strip_hd [OF t] str_strip_last [OF t] by (simp add: lower_char_isspace)
qed

lemma load_excel_to_df_first:
  assumes "s3_objects (source_bucket, source_key) = Some excel_file"
    and "sheets excel_file = (name, sheet) # others"
  shows "load_excel_to_df s3_objects source_bucket source_key =
           Inr (head 5 (sheet\<lparr>columns := map rename_column (columns sheet)\<rparr>),
                sheet\<lparr>columns := map rename_column (columns sheet)\<rparr>)"
  using assms
  by (simp add: load_excel_to_df_def sheet_names_def read_excel_def rename_column_def [abs_def]
      comp_def Let_def)

lemma load_excel_to_df_Inr:
  assumes "load_excel_to_df s3_objects source_bucket source_key = Inr (printed, df)"
  shows "\<exists>excel_file name sheet others.
           s3_objects (source_bucket, source_key) = Some excel_file \<and>
           sheets excel_file = (name, sheet) # others"
proof (cases "s3_objects (source_bucket, source_key)")
  case None
  with assms show ?thesis by (simp add: load_excel_to_df_def)
next
  case (Some excel_file)
  show ?thesis
  proof (cases "sheets excel_file")
    case Nil
    with Some assms show ?thesis by (simp add: load_excel_to_df_def sheet_names_def)
  next
    case (Cons first others)
    with Some show ?thesis by (cases first) simp
  qed
qed

text \<open>
  Claim C9.  When \<open>load_excel_to_df\<close> returns a DataFrame, its column names are the
  column names of the first sheet, each with every space replaced by an underscore, then
  stripped of leading and trailing whitespace, then lowercased, and its rows are the
  sheet's.  Stripping removes a run of whitespace at the front and one at the back and
  nothing else, and what it leaves neither starts nor ends with whitespace.  So no
  returned column name contains a space or starts or ends with whitespace, and every one
  is lowercase: lowercasing it again changes nothing and it has no uppercase letter.  The
  strip runs after the replacement, so leading and trailing spaces of a source name
  survive as underscores.
\<close>

theorem load_excel_to_df_column_names:
  "(load_excel_to_df s3_objects source_bucket source_key = Inr (printed, df) \<longrightarrow>
      (\<exists>excel_file name sheet others.
          s3_objects (source_bucket, source_key) = Some excel_file \<and>
          sheets excel_file = (name, sheet) # others \<and>
          columns df =
            map (\<lambda>c. str_lower (str_strip (str_replace CHR '' '' CHR ''_'' c))) (columns sheet) \<and>
          rows df = rows sheet) \<and>
      (\<forall>c \<in> set (columns df).
          CHR '' '' \<notin> set c \<and> str_lower c = c \<and> (\<forall>x \<in> set c. \<not> isupper x) \<and>
          (c \<noteq> [] \<longrightarrow> \<not> isspace (hd c) \<and> \<not> isspace (last c)))) \<and>
   (\<exists>leading trailing. t = leading @ str_strip t @ trailing \<and>
      (\<forall>x \<in> set leading. isspace x) \<and> (\<forall>x \<in> set trailing. isspace x)) \<and>
   (str_strip t \<noteq> [] \<longrightarrow>
      \<not> isspace (hd (str_strip t)) \<and> \<not> isspace (last (str_strip t))) \<and>
   (0 < n \<and> 0 < m \<longrightarrow>
      str_lower (str_strip (str_replace CHR '' '' CHR ''_''
          (replicate n CHR '' '' @ s @ replicate m CHR '' ''))) =
        replicate n CHR ''_'' @ str_lower (str_replace CHR '' '' CHR ''_'' s) @
        replicate m CHR ''_'')"
proof -
  have loaded: "(\<exists>excel_file name sheet others.
          s3_objects (source_bucket, source_key) = Some excel_file \<and>
          sheets excel_file = (name, sheet) # others \<and>
          columns df =
            map (\<lambda>c. str_lower (str_strip (str_replace CHR '' '' CHR ''_'' c))) (columns sheet) \<and>
          rows df = rows sheet) \<and>
      (\<forall>c \<in> set (columns df).
          CHR '' '' \<notin> set c \<and> str_lower c = c \<and> (\<forall>x \<in> set c. \<not> isupper x) \<and>
          (c \<noteq> [] \<longrightarrow> \<not> isspace (hd c) \<and> \<not> isspace (last c)))"
    if run: "load_excel_to_df s3_objects source_bucket source_key = Inr (printed, df)"
  proof
    from load_excel_to_df_Inr [OF run] obtain excel_file name sheet others
      where src: "s3_objects (source_bucket, source_key) = Some excel_file"
        "sheets excel_file = (name, sheet) # others" by blast
    from load_excel_to_df_first
      [of s3_objects source_bucket source_key excel_file name sheet others, OF src] run
    have df: "df = sheet\<lparr>columns := map rename_column (columns sheet)\<rparr>" by simp
    then have cols: "columns df = map rename_column (columns sheet)" by simp
    from src df show "\<exists>excel_file name sheet others.
            s3_objects (source_bucket, source_key) = Some excel_file \<and>
            sheets excel_file = (name, sheet) # others \<and>
            columns df =
              map (\<lambda>c. str_lower (str_strip (str_replace CHR '' '' CHR ''_'' c))) (columns sheet) \<and>
            rows df = rows sheet"
      by (simp add: rename_column_def)
    show "\<forall>c \<in> set (columns df).
            CHR '' '' \<notin> set c \<and> str_lower c = c \<and> (\<forall>x \<in> set c. \<not> isupper x) \<and>
            (c \<noteq> [] \<longrightarrow> \<not> isspace (hd c) \<and> \<not> isspace (last c))"
    proof
      fix c assume "c \<in> set (columns df)"
      with cols obtain c0 where c: "c = rename_column c0" by auto
      have "CHR '' '' \<notin> set c" unfolding c by (rule rename_no_space)
      moreover have "str_lower c = c" unfolding c rename_column_def by (rule str_lower_idem)
      moreover have "\<forall>x \<in> set c. \<not> isupper x"
        unfolding c rename_column_def using str_lower_no_upper by blast
      moreover have "c \<noteq> [] \<longrightarrow> \<not> isspace (hd c) \<and> \<not> isspace (last c)"
        unfolding c using rename_column_ends by blast
      ultimately show "CHR '' '' \<notin> set c \<and> str_lower c = c \<and> (\<forall>x \<in> set c. \<not> isupper x) \<and>
            (c \<noteq> [] \<longrightarrow> \<not> isspace (hd c) \<and> \<not> isspace (last c))"
        by (intro conjI)
    qed
  qed
  have spaces: "str_lower (str_strip (str_replace CHR '' '' CHR ''_''
          (replicate n CHR '' '' @ s @ replicate m CHR '' ''))) =
        replicate n CHR ''_'' @ str_lower (str_replace CHR '' '' CHR ''_'' s) @
        replicate m CHR ''_''"
    if nm: "0 < n \<and> 0 < m"
  proof -
    let ?r = "str_replace CHR '' '' CHR ''_''"
    have r: "?r (replicate n CHR '' '' @ s @ replicate m CHR '' '') =
        replicate n CHR ''_'' @ ?r s @ replicate m CHR ''_''"
      by (simp add: str_replace_def)
    have under: "\<not> isspace CHR ''_''" by (simp add: isspace_def)
    from nm have "hd (replicate n CHR ''_'' @ ?r s @ replicate m CHR ''_'') = CHR ''_''"
      by (cases n) simp_all
    moreover from nm have "last (replicate n CHR ''_'' @ ?r s @ replicate m CHR ''_'') = CHR ''_''"
      by (cases m) simp_all
    moreover from nm have "replicate n CHR ''_'' @ ?r s @ replicate m CHR ''_'' \<noteq> []"
      by simp
    ultimately have "str_strip (replicate n CHR ''_'' @ ?r s @ replicate m CHR ''_'') =
        replicate n CHR ''_'' @ ?r s @ replicate m CHR ''_''"
      using under by (intro str_strip_kept) simp_all
    moreover have "lower_char CHR ''_'' = CHR ''_''"
      by (simp add: lower_char_def isupper_def)
    ultimately show ?thesis
      unfolding r by (simp add: str_lower_def)
  qed
  from loaded spaces str_strip_removes [of t] show ?thesis by blast
qed

theorem load_excel_to_df_column_names_witness:
  "load_excel_to_df (Map.empty((''aws-bigdata-blog'', ''orders.xlsx'') \<mapsto> example_headers))
      ''aws-bigdata-blog'' ''orders.xlsx'' =
     Inr (\<lparr>columns = [''_order_id_'', ''ship_mode'', ''caf'' @ [CHR 0xE9]], rows = [[1, 2, 3]]\<rparr>,
          \<lparr>columns = [''_order_id_'', ''ship_mode'', ''caf'' @ [CHR 0xE9]], rows = [[1, 2, 3]]\<rparr>) \<and>
   CHR '' '' \<notin> set ''ship_mode'' \<and> str_lower ''ship_mode'' = ''ship_mode'' \<and>
   \<not> isspace (hd ''ship_mode'') \<and> \<not> isspace (last ''ship_mode'') \<and>
   (\<exists>leading trailing.
      [CHR 0x09] @ ''Ship_Mode'' @ [CHR 0x0A, CHR 0x0D] =
        leading @ str_strip ([CHR 0x09] @ ''Ship_Mode'' @ [CHR 0x0A, CHR 0x0D]) @ trailing \<and>
      (\<forall>x \<in> set leading. isspace x) \<and> (\<forall>x \<in> set trailing. isspace x)) \<and>
   \<not> isspace (hd (str_strip ([CHR 0x09] @ ''Ship_Mode'' @ [CHR 0x0A, CHR 0x0D]))) \<and>
   \<not> isspace (last (str_strip ([CHR 0x09] @ ''Ship_Mode'' @ [CHR 0x0A, CHR 0x0D]))) \<and>
   str_lower (str_strip (str_replace CHR '' '' CHR ''_''
          (replicate 1 CHR '' '' @ ''Order ID'' @ replicate 1 CHR '' ''))) =
     replicate 1 CHR ''_'' @ str_lower (str_replace CHR '' '' CHR ''_'' ''Order ID'') @
     replicate 1 CHR ''_''"
proof -
  let ?s3 = "Map.empty((''aws-bigdata-blog'', ''orders.xlsx'') \<mapsto> example_headers)"
  let ?df = "\<lparr>columns = [''_order_id_'', ''ship_mode'', ''caf'' @ [CHR 0xE9]],
              rows = [[1, 2, 3 :: nat]]\<rparr>"
  let ?t = "[CHR 0x09] @ ''Ship_Mode'' @ [CHR 0x0A, CHR 0x0D]"
  note T = load_excel_to_df_column_names
    [where s3_objects = ?s3 and source_bucket = "''aws-bigdata-blog''"
       and source_key = "''orders.xlsx''" and printed = ?df and df = ?df and t = ?t
       and n = 1 and m = 1 and s = "''Order ID''"]
  have run: "load_excel_to_df ?s3 ''aws-bigdata-blog'' ''orders.xlsx'' = Inr (?df, ?df)"
    by code_simp
  have "''ship_mode'' \<in> set (columns ?df)" by simp
  with T [THEN conjunct1, rule_format, OF run, THEN conjunct2]
  have col: "CHR '' '' \<notin> set ''ship_mode'' \<and> str_lower ''ship_mode'' = ''ship_mode'' \<and>
      (\<forall>x \<in> set ''ship_mode''. \<not> isupper x) \<and>
      (''ship_mode'' \<noteq> [] \<longrightarrow> \<not> isspace (hd ''ship_mode'') \<and> \<not> isspace (last ''ship_mode''))"
    by (rule bspec)
  then have ends: "\<not> isspace (hd ''ship_mode'') \<and> \<not> isspace (last ''ship_mode'')"
    by simp
  have stripped: "str_strip ?t \<noteq> []" by code_simp
  note parts = T [THEN conjunct2, THEN conjunct1]
  note clean = T [THEN conjunct2, THEN conjunct2, THEN conjunct1, rule_format, OF stripped]
  have "0 < (1::nat) \<and> 0 < (1::nat)" by simp
  note under = T [THEN conjunct2, THEN conjunct2, THEN conjunct2, rule_format, OF this]
  from run col ends parts clean under show ?thesis by (intro conjI) blast+
qed

text \<open>
  Claim C10.  \<open>load_excel_to_df\<close> reads the first sheet of the workbook only: two
  workbooks with the same first sheet give the same result, whatever their other sheets
  are, and that result is built from the first sheet alone.
\<close>

theorem load_excel_to_df_first_sheet_only:
  "load_excel_to_df (s3_objects((source_bucket, source_key) \<mapsto> \<lparr>sheets = (name, sheet) # others\<rparr>))
      source_bucket source_key =
   load_excel_to_df (s3_objects'((source_bucket, source_key) \<mapsto> \<lparr>sheets = (name, sheet) # others'\<rparr>))
      source_bucket source_key \<and>
   load_excel_to_df (s3_objects((source_bucket, source_key) \<mapsto> \<lparr>sheets = (name, sheet) # others\<rparr>))
      source_bucket source_key =
     Inr (head 5 (sheet\<lparr>columns :=
            map (\<lambda>c. str_lower (str_strip (str_replace CHR '' '' CHR ''_'' c))) (columns sheet)\<rparr>),
          sheet\<lparr>columns :=
            map (\<lambda>c. str_lower (str_strip (str_replace CHR '' '' CHR ''_'' c))) (columns sheet)\<rparr>)"
  by (simp add: load_excel_to_df_first [where name = name and sheet = sheet] rename_column_def
      cong: map_cong)

text \<open>
  Claim C6.  The bucket cell prints a message instead of raising exactly when
  \<open>create_bucket\<close> succeeds or raises \<open>BucketAlreadyOwnedByYou\<close>; the database cell does so
  exactly when \<open>create_database\<close> succeeds or raises \<open>AlreadyExistsException\<close>.  Any other
  exception of these calls propagates unchanged.
\<close>

theorem create_cells_catch_already_exists:
  "(create_bucket_cell create_bucket s3_bucket_name region = Inr out \<longleftrightarrow>
      (\<exists>response. create_bucket s3_bucket_name region = Inr response) \<and>
        out = [''S3 bucket created''] \<or>
      create_bucket s3_bucket_name region = Inl BucketAlreadyOwnedByYou \<and>
        out = [''S3 bucket already exists'']) \<and>
   (create_bucket_cell create_bucket s3_bucket_name region = Inl e \<longleftrightarrow>
      create_bucket s3_bucket_name region = Inl e \<and> e \<noteq> BucketAlreadyOwnedByYou) \<and>
   (create_database_cell create_database db_name = Inr out' \<longleftrightarrow>
      (\<exists>response. create_database db_name = Inr response) \<and>
        out' = [''Successfully created database: '' @ db_name] \<or>
      create_database db_name = Inl AlreadyExistsException \<and>
        out' = [''Database '' @ db_name @ '' already exists'']) \<and>
   (create_database_cell create_database db_name = Inl e' \<longleftrightarrow>
      create_database db_name = Inl e' \<and> e' \<noteq> AlreadyExistsException)"
  by (auto simp: create_bucket_cell_def create_database_cell_def split: sum.splits)


theorem load_excel_to_df_first_sheet_only_witness:
  "load_excel_to_df (Map.empty((''aws-bigdata-blog'', ''returns.xlsx'') \<mapsto> example_workbook))
      ''aws-bigdata-blog'' ''returns.xlsx'' =
   load_excel_to_df (Map.empty((''aws-bigdata-blog'', ''returns.xlsx'') \<mapsto>
        \<lparr>sheets = [(''Returns'', \<lparr>columns = ['' Order ID '', ''Market'', [CHR 9] @ ''Returned Item''],
                                   rows = [[1, 2, 3], [4, 5, 6 :: nat]]\<rparr>)]\<rparr>))
      ''aws-bigdata-blog'' ''returns.xlsx''"
  using load_excel_to_df_first_sheet_only
    [of Map.empty "''aws-bigdata-blog''" "''returns.xlsx''" "''Returns''"
        "\<lparr>columns = ['' Order ID '', ''Market'', [CHR 9] @ ''Returned Item''],
          rows = [[1, 2, 3], [4, 5, 6 :: nat]]\<rparr>"
        "[(''Notes'', \<lparr>columns = [''Free Text''], rows = [[7]]\<rparr>)]" Map.empty "[]"]
  by (simp add: example_workbook_def)

theorem create_cells_catch_already_exists_witness:
  "create_bucket_cell (\<lambda>bucket region. Inl BucketAlreadyOwnedByYou :: exn + unit)
      ''retail-bucket'' ''us-west-2'' = Inr [''S3 bucket already exists''] \<and>
   create_bucket_cell (\<lambda>bucket region. Inl BucketAlreadyExists :: exn + unit)
      ''retail-bucket'' ''us-west-2'' = Inl BucketAlreadyExists \<and>
   create_bucket_cell (\<lambda>bucket region. Inr ()) ''retail-bucket'' ''us-west-2'' =
      Inr [''S3 bucket created''] \<and>
   create_database_cell (\<lambda>name. Inl AlreadyExistsException :: exn + unit) ''retail'' =
      Inr [''Database retail already exists''] \<and>
   create_database_cell (\<lambda>name. Inl (ClientError ''AccessDeniedException'') :: exn + unit)
      ''retail'' = Inl (ClientError ''AccessDeniedException'') \<and>
   create_database_cell (\<lambda>name. Inr ()) ''retail'' =
      Inr [''Successfully created database: retail'']"
proof -
  note T = create_cells_catch_already_exists
  have a: "create_bucket_cell (\<lambda>bucket region. Inl BucketAlreadyOwnedByYou :: exn + unit)
      ''retail-bucket'' ''us-west-2'' = Inr [''S3 bucket already exists'']"
    using T [of "\<lambda>bucket region. Inl BucketAlreadyOwnedByYou :: exn + unit"
        "''retail-bucket''" "''us-west-2''" "[''S3 bucket already exists'']", THEN conjunct1]
    by simp
  have b: "create_bucket_cell (\<lambda>bucket region. Inl BucketAlreadyExists :: exn + unit)
      ''retail-bucket'' ''us-west-2'' = Inl BucketAlreadyExists"
    using T [of "\<lambda>bucket region. Inl BucketAlreadyExists :: exn + unit"
        "''retail-bucket''" "''us-west-2''" _ BucketAlreadyExists, THEN conjunct2, THEN conjunct1]
    by simp
  have c: "create_bucket_cell (\<lambda>bucket region. Inr ()) ''retail-bucket'' ''us-west-2'' =
      Inr [''S3 bucket created'']"
    using T [of "\<lambda>bucket region. Inr ()"
        "''retail-bucket''" "''us-west-2''" "[''S3 bucket created'']", THEN conjunct1]
    by simp
  have d: "create_database_cell (\<lambda>name. Inl AlreadyExistsException :: exn + unit) ''retail'' =
      Inr [''Database retail already exists'']"
    using T [where create_database = "\<lambda>name. Inl AlreadyExistsException :: exn + unit"
        and db_name = "''retail''" and out' = "[''Database retail already exists'']",
        THEN conjunct2, THEN conjunct2, THEN conjunct1]
    by simp
  have e: "create_database_cell (\<lambda>name. Inl (ClientError ''AccessDeniedException'') :: exn + unit)
      ''retail'' = Inl (ClientError ''AccessDeniedException'')"
    using T [where create_database = "\<lambda>name. Inl (ClientError ''AccessDeniedException'') :: exn + unit"
        and db_name = "''retail''" and e' = "ClientError ''AccessDeniedException''",
        THEN conjunct2, THEN conjunct2, THEN conjunct2]
    by simp
  have f: "create_database_cell (\<lambda>name. Inr ()) ''retail'' =
      Inr [''Successfully created database: retail'']"
    using T [where create_database = "\<lambda>name. Inr ()" and db_name = "''retail''"
        and out' = "[''Successfully created database: retail'']",
        THEN conjunct2, THEN conjunct2, THEN conjunct1]
    by simp
  from a b c d e f show ?thesis by (intro conjI)
qed

section \<open>Properties of the metadata filters\<close>


lemma satisfies_optional_string:
  "(\<forall>x \<in> set (optional_leaf f equals (map_option Str v)). satisfies ch x) \<longleftrightarrow>
     (case v of None \<Rightarrow> True | Some w \<Rightarrow> has_string ch f (\<lambda>a. a = w))"
  by (auto simp: optional_leaf_def has_string_def split: option.splits meta_value.splits)

lemma satisfies_optional_prefix:
  "(\<forall>x \<in> set (optional_leaf f startsWith (map_option Str v)). satisfies ch x) \<longleftrightarrow>
     (case v of None \<Rightarrow> True | Some w \<Rightarrow> has_string ch f (\<lambda>a. prefix w a))"
  by (auto simp: optional_leaf_def has_string_def split: option.splits meta_value.splits)

lemma satisfies_optional_lower:
  "(\<forall>x \<in> set (optional_leaf f greaterThanOrEquals (map_option Num v)). satisfies ch x) \<longleftrightarrow>
     (case v of None \<Rightarrow> True | Some w \<Rightarrow> has_number ch f (\<lambda>a. w \<le> a))"
  by (auto simp: optional_leaf_def has_number_def split: option.splits meta_value.splits)

lemma satisfies_optional_upper:
  "(\<forall>x \<in> set (optional_leaf f lessThanOrEquals (map_option Num v)). satisfies ch x) \<longleftrightarrow>
     (case v of None \<Rightarrow> True | Some w \<Rightarrow> has_number ch f (\<lambda>a. a \<le> w))"
  by (auto simp: optional_leaf_def has_number_def split: option.splits meta_value.splits)

lemma satisfies_year_set:
  "satisfies ch (OrNode (map (\<lambda>y. Leaf Year equals (Num y)) ys)) \<longleftrightarrow>
     has_number ch Year (\<lambda>a. a \<in> set ys)"
  by (auto simp: has_number_def split: option.splits meta_value.splits)

lemma year_list_translation:
  "year_conditions (Some (YearList ys)) rng =
     (if rng \<and> ys \<noteq> []
      then [Leaf Year greaterThanOrEquals (Num (Min (set ys))),
            Leaf Year lessThanOrEquals (Num (Max (set ys)))]
      else [OrNode (map (\<lambda>y. Leaf Year equals (Num y)) ys)])"
proof (cases ys)
  case Nil
  then show ?thesis by simp
next
  case (Cons y ys')
  have "fold min ys' y = Min (set (y # ys'))" by (simp only: Min.set_eq_fold)
  moreover have "fold max ys' y = Max (set (y # ys'))" by (simp only: Max.set_eq_fold)
  ultimately show ?thesis using Cons by (cases rng) simp_all
qed

lemma satisfies_year_range:
  "satisfies ch (Leaf Year greaterThanOrEquals (Num lo)) \<and>
   satisfies ch (Leaf Year lessThanOrEquals (Num hi)) \<longleftrightarrow>
     has_number ch Year (\<lambda>a. lo \<le> a \<and> a \<le> hi)"
  by (auto simp: has_number_def split: option.splits meta_value.splits)

lemma satisfies_year_conditions:
  "(\<forall>x \<in> set (year_conditions y rng). satisfies ch x) \<longleftrightarrow>
     (case y of None \<Rightarrow> True | Some y' \<Rightarrow> year_holds y' rng ch)"
proof (cases y)
  case None
  then show ?thesis by simp
next
  case (Some y')
  show ?thesis
  proof (cases y')
    case (OneYear v)
    with Some show ?thesis
      by (auto simp: year_holds_def has_number_def split: option.splits meta_value.splits)
  next
    case (YearList vs)
    show ?thesis
    proof (cases "rng \<and> vs \<noteq> []")
      case True
      with Some YearList show ?thesis
        using satisfies_year_range [of ch "Min (set vs)" "Max (set vs)"]
        by (simp add: year_list_translation year_holds_def)
    next
      case False
      then have else_branch: "(if rng \<and> vs \<noteq> [] then a else b) = b" for a b :: 'a
        by auto
      from Some YearList show ?thesis
        using satisfies_year_set [of ch vs]
        by (simp add: year_list_translation year_holds_def else_branch)
    qed
  qed
qed

lemma satisfies_build_metadata_filter:
  "satisfies ch (build_metadata_filter c) \<longleftrightarrow> criteria_hold c ch"
  by (simp only: build_metadata_filter_def satisfies.simps set_append ball_Un
      satisfies_optional_string satisfies_optional_prefix satisfies_optional_lower
      satisfies_optional_upper satisfies_year_conditions criteria_hold_def conj_assoc)


lemma criteria_hold_upd:
  "company c = None \<Longrightarrow> criteria_hold c (ch(Company := x)) = criteria_hold c ch"
  "year c = None \<Longrightarrow> criteria_hold c (ch(Year := x)) = criteria_hold c ch"
  "docType c = None \<Longrightarrow> criteria_hold c (ch(DocType := x)) = criteria_hold c ch"
  "min_page c = None \<Longrightarrow> max_page c = None \<Longrightarrow>
     criteria_hold c (ch(PageNumber := x)) = criteria_hold c ch"
  "s3_prefix c = None \<Longrightarrow> criteria_hold c (ch(SourceUri := x)) = criteria_hold c ch"
  by (simp_all add: criteria_hold_def year_holds_def has_string_def has_number_def
      split: option.splits year_arg.splits)

text \<open>
  Claim C3.  The filter the builder produces is satisfied by a chunk if and only if every
  supplied criterion holds for the chunk, and this is the filter \<open>query_financial_data\<close>
  sends; the filter of \<open>create_standard_filter\<close> is satisfied exactly by the chunks with
  the given document type and year.  A criterion that is not supplied imposes no
  constraint: with no criteria every chunk satisfies the filter, and the attribute of an
  absent criterion can be changed at will.  A year list becomes an OR node of equality
  leaves, or the two range leaves from its minimum to its maximum when the criteria
  indicate a continuous range.
\<close>

theorem metadata_filter_conjunctive:
  "(satisfies ch (build_metadata_filter c) \<longleftrightarrow> criteria_hold c ch) \<and>
   (\<exists>f. query_financial_data bedrock_client query_text kb_id model_arn c =
          bedrock_client query_text kb_id model_arn f \<and>
        (satisfies ch f \<longleftrightarrow> criteria_hold c ch)) \<and>
   (satisfies ch (create_standard_filter doc_type y) \<longleftrightarrow>
      ch DocType = Some (Str doc_type) \<and> ch Year = Some (Num y)) \<and>
   satisfies ch (build_metadata_filter no_criteria) \<and>
   (company c = None \<longrightarrow>
      satisfies (ch(Company := x)) (build_metadata_filter c) = satisfies ch (build_metadata_filter c)) \<and>
   (year c = None \<longrightarrow>
      satisfies (ch(Year := x)) (build_metadata_filter c) = satisfies ch (build_metadata_filter c)) \<and>
   (docType c = None \<longrightarrow>
      satisfies (ch(DocType := x)) (build_metadata_filter c) = satisfies ch (build_metadata_filter c)) \<and>
   (min_page c = None \<and> max_page c = None \<longrightarrow>
      satisfies (ch(PageNumber := x)) (build_metadata_filter c) = satisfies ch (build_metadata_filter c)) \<and>
   (s3_prefix c = None \<longrightarrow>
      satisfies (ch(SourceUri := x)) (build_metadata_filter c) = satisfies ch (build_metadata_filter c)) \<and>
   (year c = Some (YearList ys) \<longrightarrow>
      (\<exists>before after. build_metadata_filter c =
         AndNode (before @
           (if continuous_range c \<and> ys \<noteq> []
            then [Leaf Year greaterThanOrEquals (Num (Min (set ys))),
                  Leaf Year lessThanOrEquals (Num (Max (set ys)))]
            else [OrNode (map (\<lambda>y. Leaf Year equals (Num y)) ys)]) @ after)))"
proof -
  note sat = satisfies_build_metadata_filter
  have standard: "satisfies ch (create_standard_filter doc_type y) \<longleftrightarrow>
      ch DocType = Some (Str doc_type) \<and> ch Year = Some (Num y)"
    by (auto simp: create_standard_filter_def split: option.splits)
  have none: "criteria_hold no_criteria ch"
    by (simp add: criteria_hold_def no_criteria_def)
  have sent: "\<exists>f. query_financial_data bedrock_client query_text kb_id model_arn c =
          bedrock_client query_text kb_id model_arn f \<and>
        (satisfies ch f \<longleftrightarrow> criteria_hold c ch)"
    unfolding query_financial_data_def using sat by blast
  have shape: "year c = Some (YearList ys) \<longrightarrow>
      (\<exists>before after. build_metadata_filter c =
         AndNode (before @
           (if continuous_range c \<and> ys \<noteq> []
            then [Leaf Year greaterThanOrEquals (Num (Min (set ys))),
                  Leaf Year lessThanOrEquals (Num (Max (set ys)))]
            else [OrNode (map (\<lambda>y. Leaf Year equals (Num y)) ys)]) @ after))"
  proof
    assume y: "year c = Some (YearList ys)"
    show "\<exists>before after. build_metadata_filter c =
         AndNode (before @
           (if continuous_range c \<and> ys \<noteq> []
            then [Leaf Year greaterThanOrEquals (Num (Min (set ys))),
                  Leaf Year lessThanOrEquals (Num (Max (set ys)))]
            else [OrNode (map (\<lambda>y. Leaf Year equals (Num y)) ys)]) @ after)"
      unfolding build_metadata_filter_def y year_list_translation by blast
  qed
  show ?thesis
    using standard none sent shape by (simp add: sat criteria_hold_upd)
qed

theorem metadata_filter_conjunctive_witness:
  "satisfies example_chunk (build_metadata_filter amazon_2023_2024) \<and>
   \<not> satisfies (example_chunk(Year \<mapsto> Num 2022)) (build_metadata_filter amazon_2023_2024) \<and>
   \<not> satisfies (example_chunk(Company \<mapsto> Str ''Other'')) (build_metadata_filter amazon_2023_2024) \<and>
   satisfies (example_chunk(DocType := None)) (build_metadata_filter amazon_2023_2024) \<and>
   satisfies (example_chunk(PageNumber \<mapsto> Num 900)) (build_metadata_filter amazon_2023_2024) \<and>
   satisfies (example_chunk(SourceUri := None)) (build_metadata_filter amazon_2023_2024) \<and>
   satisfies (example_chunk(Company := None))
     (build_metadata_filter (no_criteria\<lparr>year := Some (OneYear 2024)\<rparr>)) \<and>
   satisfies (example_chunk(Year := None))
     (build_metadata_filter (no_criteria\<lparr>company := Some ''Amazon''\<rparr>)) \<and>
   (\<exists>before after. build_metadata_filter amazon_2023_2024 =
      AndNode (before @ [OrNode [Leaf Year equals (Num 2023), Leaf Year equals (Num 2024)]] @ after)) \<and>
   satisfies (example_chunk(Year \<mapsto> Num 2022))
     (build_metadata_filter (no_criteria\<lparr>year := Some (YearList [2021, 2024]), continuous_range := True\<rparr>)) \<and>
   \<not> satisfies (example_chunk(Year \<mapsto> Num 2022))
     (build_metadata_filter (no_criteria\<lparr>year := Some (YearList [2021, 2024])\<rparr>)) \<and>
   satisfies example_chunk (create_standard_filter ''10K Report'' 2024)"
proof -
  note T = metadata_filter_conjunctive
  note ev = criteria_hold_def year_holds_def has_string_def has_number_def amazon_2023_2024_def
    no_criteria_def example_chunk_def
  let ?f = "build_metadata_filter amazon_2023_2024"
  have a: "satisfies example_chunk ?f"
    by (simp add: T [THEN conjunct1] ev)
  have b: "\<not> satisfies (example_chunk(Year \<mapsto> Num 2022)) ?f"
    by (simp add: T [THEN conjunct1] ev)
  have c: "\<not> satisfies (example_chunk(Company \<mapsto> Str ''Other'')) ?f"
    by (simp add: T [THEN conjunct1] ev)
  have d: "satisfies (example_chunk(DocType := None)) ?f"
  proof -
    have "docType amazon_2023_2024 = None" by (simp add: ev)
    from T [where ch = example_chunk and c = amazon_2023_2024 and x = None,
        THEN conjunct2, THEN conjunct2, THEN conjunct2, THEN conjunct2, THEN conjunct2,
        THEN conjunct2, THEN conjunct1, rule_format, OF this] a
    show ?thesis by simp
  qed
  have e: "satisfies (example_chunk(PageNumber \<mapsto> Num 900)) ?f"
  proof -
    have "min_page amazon_2023_2024 = None \<and> max_page amazon_2023_2024 = None"
      by (simp add: ev)
    from T [where ch = example_chunk and c = amazon_2023_2024 and x = "Some (Num 900)",
        THEN conjunct2, THEN conjunct2, THEN conjunct2, THEN conjunct2, THEN conjunct2,
        THEN conjunct2, THEN conjunct2, THEN conjunct1, rule_format, OF this] a
    show ?thesis by simp
  qed
  have f: "satisfies (example_chunk(SourceUri := None)) ?f"
  proof -
    have "s3_prefix amazon_2023_2024 = None" by (simp add: ev)
    from T [where ch = example_chunk and c = amazon_2023_2024 and x = None,
        THEN conjunct2, THEN conjunct2, THEN conjunct2, THEN conjunct2, THEN conjunct2,
        THEN conjunct2, THEN conjunct2, THEN conjunct2, THEN conjunct1, rule_format, OF this] a
    show ?thesis by simp
  qed
  have g: "satisfies (example_chunk(Company := None))
     (build_metadata_filter (no_criteria\<lparr>year := Some (OneYear 2024)\<rparr>))"
  proof -
    let ?c = "no_criteria\<lparr>year := Some (OneYear 2024)\<rparr>"
    have absent: "company ?c = None" by (simp add: ev)
    have "satisfies example_chunk (build_metadata_filter ?c)"
      by (simp add: T [THEN conjunct1] ev)
    with T [where ch = example_chunk and c = ?c and x = None,
        THEN conjunct2, THEN conjunct2, THEN conjunct2, THEN conjunct2, THEN conjunct1,
        rule_format, OF absent]
    show ?thesis by simp
  qed
  have h: "satisfies (example_chunk(Year := None))
     (build_metadata_filter (no_criteria\<lparr>company := Some ''Amazon''\<rparr>))"
  proof -
    let ?c = "no_criteria\<lparr>company := Some ''Amazon''\<rparr>"
    have absent: "year ?c = None" by (simp add: ev)
    have "satisfies example_chunk (build_metadata_filter ?c)"
      by (simp add: T [THEN conjunct1] ev)
    with T [where ch = example_chunk and c = ?c and x = None,
        THEN conjunct2, THEN conjunct2, THEN conjunct2, THEN conjunct2, THEN conjunct2,
        THEN conjunct1, rule_format, OF absent]
    show ?thesis by simp
  qed
  have i: "\<exists>before after. ?f =
      AndNode (before @ [OrNode [Leaf Year equals (Num 2023), Leaf Year equals (Num 2024)]] @ after)"
  proof -
    have "year amazon_2023_2024 = Some (YearList [2023, 2024])" by (simp add: ev)
    from T [where c = amazon_2023_2024 and ys = "[2023, 2024]",
        THEN conjunct2, THEN conjunct2, THEN conjunct2, THEN conjunct2, THEN conjunct2,
        THEN conjunct2, THEN conjunct2, THEN conjunct2, THEN conjunct2, rule_format, OF this]
    show ?thesis by (simp add: ev)
  qed
  have j: "satisfies (example_chunk(Year \<mapsto> Num 2022))
     (build_metadata_filter (no_criteria\<lparr>year := Some (YearList [2021, 2024]), continuous_range := True\<rparr>))"
    by (simp add: T [THEN conjunct1] ev)
  have k: "\<not> satisfies (example_chunk(Year \<mapsto> Num 2022))
     (build_metadata_filter (no_criteria\<lparr>year := Some (YearList [2021, 2024])\<rparr>))"
    by (simp add: T [THEN conjunct1] ev)
  have l: "satisfies example_chunk (create_standard_filter ''10K Report'' 2024)"
    by (simp add: T [THEN conjunct2, THEN conjunct2, THEN conjunct1] ev)
  from a b c d e f g h i j k l show ?thesis by (intro conjI)
qed

text \<open>
  Claim C4.  With \<open>company = 'Amazon'\<close> and \<open>year = [2023, 2024]\<close> the payload that
  \<open>query_financial_data\<close> sends is an AND node with two children: the OR node of the two
  equality leaves on year, and one equality leaf on company.
\<close>

theorem amazon_2023_2024_payload:
  "\<exists>children.
     query_financial_data bedrock_client query_text kb_id model_arn amazon_2023_2024 =
       bedrock_client query_text kb_id model_arn (AndNode children) \<and>
     build_metadata_filter amazon_2023_2024 = AndNode children \<and>
     length children = 2 \<and>
     set children =
       {OrNode [Leaf Year equals (Num 2023), Leaf Year equals (Num 2024)],
        Leaf Company equals (Str ''Amazon'')}"
proof -
  have "build_metadata_filter amazon_2023_2024 =
      AndNode [Leaf Company equals (Str ''Amazon''),
               OrNode [Leaf Year equals (Num 2023), Leaf Year equals (Num 2024)]]"
    by (simp add: build_metadata_filter_def amazon_2023_2024_def no_criteria_def
        optional_leaf_def)
  then show ?thesis
    by (intro exI [of _ "[Leaf Company equals (Str ''Amazon''),
               OrNode [Leaf Year equals (Num 2023), Leaf Year equals (Num 2024)]]"])
      (auto simp: query_financial_data_def)
qed

theorem amazon_2023_2024_payload_witness:
  "\<exists>children.
     query_financial_data (\<lambda>query_text kb_id model_arn payload. payload)
         ''Compare growth rates'' ''KB1'' ''arn:model'' amazon_2023_2024 = AndNode children \<and>
     length children = 2 \<and>
     set children =
       {OrNode [Leaf Year equals (Num 2023), Leaf Year equals (Num 2024)],
        Leaf Company equals (Str ''Amazon'')}"
  using amazon_2023_2024_payload
    [of "\<lambda>query_text kb_id model_arn payload. payload" "''Compare growth rates''" "''KB1''"
        "''arn:model''"]
  by blast

section \<open>Properties of the cost report\<close>

text \<open>
  Claim C7.  The report of \<open>get_bedrock_token_based_cost\<close> has the keys
  \<open>duration in minutes\<close>, \<open>input_tokens\<close>, \<open>invocation_count\<close> and \<open>total token costs\<close>.  Its
  token and invocation counts are those the metrics API returns for the model and the
  interval, and its total token cost is the retrieved token count multiplied by the
  model's entry in the static price table.  The notebook cell that reads the four keys
  from the report therefore does not raise, and its row carries these values.
\<close>

theorem get_bedrock_token_based_cost_report:
  "dom (get_bedrock_token_based_cost metrics price_table model_id start_time end_time) =
     {''duration in minutes'', ''input_tokens'', ''invocation_count'', ''total token costs''} \<and>
   get_bedrock_token_based_cost metrics price_table model_id start_time end_time ''input_tokens'' =
     Some (of_nat (input_tokens (metrics model_id start_time end_time))) \<and>
   get_bedrock_token_based_cost metrics price_table model_id start_time end_time ''invocation_count'' =
     Some (of_nat (invocation_count (metrics model_id start_time end_time))) \<and>
   get_bedrock_token_based_cost metrics price_table model_id start_time end_time ''total token costs'' =
     Some (of_nat (input_tokens (metrics model_id start_time end_time)) * price_table model_id) \<and>
   (\<exists>minutes.
      get_bedrock_token_based_cost metrics price_table model_id start_time end_time
          ''duration in minutes'' = Some minutes \<and>
      new_row kb_chunking_strategy
          (get_bedrock_token_based_cost metrics price_table model_id start_time end_time) =
        Inr [(''chunking_algo'', Text kb_chunking_strategy),
             (''embedding_seconds'', Number (minutes * 60)),
             (''input_tokens'', Number (of_nat (input_tokens (metrics model_id start_time end_time)))),
             (''invocation_count'',
                Number (of_nat (invocation_count (metrics model_id start_time end_time)))),
             (''total_token_costs'',
                Number (of_nat (input_tokens (metrics model_id start_time end_time)) *
                        price_table model_id))])"
proof -
  let ?report = "get_bedrock_token_based_cost metrics price_table model_id start_time end_time"
  have keys: "dom ?report =
     {''duration in minutes'', ''input_tokens'', ''invocation_count'', ''total token costs''}"
    by (auto simp: get_bedrock_token_based_cost_def Let_def)
  have d: "?report ''duration in minutes'' = Some ((end_time - start_time) / 60)"
    by (simp add: get_bedrock_token_based_cost_def Let_def)
  have i: "?report ''input_tokens'' =
      Some (of_nat (input_tokens (metrics model_id start_time end_time)))"
    by (simp add: get_bedrock_token_based_cost_def Let_def)
  have n: "?report ''invocation_count'' =
      Some (of_nat (invocation_count (metrics model_id start_time end_time)))"
    by (simp add: get_bedrock_token_based_cost_def Let_def)
  have t: "?report ''total token costs'' =
      Some (of_nat (input_tokens (metrics model_id start_time end_time)) * price_table model_id)"
    by (simp add: get_bedrock_token_based_cost_def Let_def)
  have row: "new_row kb_chunking_strategy ?report =
     Inr [(''chunking_algo'', Text kb_chunking_strategy),
          (''embedding_seconds'', Number ((end_time - start_time) / 60 * 60)),
          (''input_tokens'', Number (of_nat (input_tokens (metrics model_id start_time end_time)))),
          (''invocation_count'',
             Number (of_nat (invocation_count (metrics model_id start_time end_time)))),
          (''total_token_costs'',
             Number (of_nat (input_tokens (metrics model_id start_time end_time)) *
                     price_table model_id))]"
    by (simp add: new_row_def getitem_def d i n t)
  from d row have "\<exists>minutes. ?report ''duration in minutes'' = Some minutes \<and>
      new_row kb_chunking_strategy ?report =
        Inr [(''chunking_algo'', Text kb_chunking_strategy),
             (''embedding_seconds'', Number (minutes * 60)),
             (''input_tokens'', Number (of_nat (input_tokens (metrics model_id start_time end_time)))),
             (''invocation_count'',
                Number (of_nat (invocation_count (metrics model_id start_time end_time)))),
             (''total_token_costs'',
                Number (of_nat (input_tokens (metrics model_id start_time end_time)) *
                        price_table model_id))]"
    by (intro exI [of _ "(end_time - start_time) / 60"] conjI)
  with keys i n t show ?thesis by (intro conjI)
qed

theorem get_bedrock_token_based_cost_report_witness:
  "get_bedrock_token_based_cost example_metrics example_price_table
       ''amazon.titan-embed-text-v2:0'' 0 90 ''total token costs'' = Some (3 / 1250) \<and>
   get_bedrock_token_based_cost example_metrics example_price_table
       ''amazon.titan-embed-text-v2:0'' 0 90 ''input_tokens'' = Some 120000 \<and>
   new_row ''FIXED_SIZE'' (get_bedrock_token_based_cost example_metrics example_price_table
       ''amazon.titan-embed-text-v2:0'' 0 90) =
     Inr [(''chunking_algo'', Text ''FIXED_SIZE''), (''embedding_seconds'', Number 90),
          (''input_tokens'', Number 120000), (''invocation_count'', Number 35),
          (''total_token_costs'', Number (3 / 1250))]"
proof -
  note T = get_bedrock_token_based_cost_report
    [of example_metrics example_price_table "''amazon.titan-embed-text-v2:0''" 0 90 "''FIXED_SIZE''"]
  have a: "get_bedrock_token_based_cost example_metrics example_price_table
       ''amazon.titan-embed-text-v2:0'' 0 90 ''total token costs'' = Some (3 / 1250)"
    using T [THEN conjunct2, THEN conjunct2, THEN conjunct2, THEN conjunct1]
    by (simp add: example_metrics_def example_price_table_def)
  have b: "get_bedrock_token_based_cost example_metrics example_price_table
       ''amazon.titan-embed-text-v2:0'' 0 90 ''input_tokens'' = Some 120000"
    using T [THEN conjunct2, THEN conjunct1]
    by (simp add: example_metrics_def)
  have d: "get_bedrock_token_based_cost example_metrics example_price_table
       ''amazon.titan-embed-text-v2:0'' 0 90 ''duration in minutes'' = Some (3 / 2)"
    by (simp add: get_bedrock_token_based_cost_def Let_def)
  have c: "new_row ''FIXED_SIZE'' (get_bedrock_token_based_cost example_metrics example_price_table
       ''amazon.titan-embed-text-v2:0'' 0 90) =
     Inr [(''chunking_algo'', Text ''FIXED_SIZE''), (''embedding_seconds'', Number 90),
          (''input_tokens'', Number 120000), (''invocation_count'', Number 35),
          (''total_token_costs'', Number (3 / 1250))]"
    using T [THEN conjunct2, THEN conjunct2, THEN conjunct2, THEN conjunct2] d
    by (auto simp: example_metrics_def example_price_table_def)
  from a b c show ?thesis by (intro conjI)
qed

end
